theory Spec2Isabelle
  imports Main "HOL-Library.Multiset" "HOL-Library.Sublist"
begin

section \<open>Python strings\<close>

text \<open>
  A Python \<^verbatim>\<open>str\<close> is a sequence of Unicode code points; lengths, slices and the
  counted repetitions of the patterns below count code points.  A string is therefore a
  list of code points (natural numbers).  ASCII literals of the source are written as
  Isabelle strings and converted with \<open>str\<close>; the non-ASCII literals of the source
  (U+200B, U+200C, the replacement characters of the entity table) are written as numbers.
\<close>

type_synonym pystr = "nat list"

definition str :: "string \<Rightarrow> pystr" where
  "str s = map of_char s"

text \<open>\<^verbatim>\<open>str.isspace\<close> and the class \<^verbatim>\<open>\s\<close>: the white-space code points of Unicode.\<close>

definition is_space :: "nat \<Rightarrow> bool" where
  "is_space c = ((9 \<le> c \<and> c \<le> 13) \<or> (28 \<le> c \<and> c \<le> 32) \<or> c = 133 \<or> c = 160
     \<or> c = 5760 \<or> (8192 \<le> c \<and> c \<le> 8202) \<or> c = 8232 \<or> c = 8233 \<or> c = 8239
     \<or> c = 8287 \<or> c = 12288)"

subsection \<open>The Unicode character database\<close>

text \<open>
  The decimal digits (\<^verbatim>\<open>\d\<close>), the word characters (\<^verbatim>\<open>\w\<close>) and the letter case
  (\<^verbatim>\<open>str.lower\<close>, IGNORECASE) of Python are those of the Unicode character database of the
  interpreter; the tables below are those of Unicode 14.0 (CPython 3.11).  Each table lists
  ranges of code points from 128 on; ASCII is written out in the definitions that use
  them.  An entry \<open>(a, b, k, a')\<close> of \<open>lower_table\<close> maps every \<open>k\<close>-th code point from \<open>a\<close> to
  \<open>b\<close> to the code point at the same distance from \<open>a'\<close>.
\<close>

definition digit_ranges :: "(nat \<times> nat) list" where
  "digit_ranges = [
     (1632, 1641), (1776, 1785), (1984, 1993), (2406, 2415), (2534, 2543), (2662, 2671),
     (2790, 2799), (2918, 2927), (3046, 3055), (3174, 3183), (3302, 3311), (3430, 3439),
     (3558, 3567), (3664, 3673), (3792, 3801), (3872, 3881), (4160, 4169), (4240, 4249),
     (6112, 6121), (6160, 6169), (6470, 6479), (6608, 6617), (6784, 6793), (6800, 6809),
     (6992, 7001), (7088, 7097), (7232, 7241), (7248, 7257), (42528, 42537), (43216, 43225),
     (43264, 43273), (43472, 43481), (43504, 43513), (43600, 43609), (44016, 44025), (65296, 65305),
     (66720, 66729), (68912, 68921), (69734, 69743), (69872, 69881), (69942, 69951), (70096, 70105),
     (70384, 70393), (70736, 70745), (70864, 70873), (71248, 71257), (71360, 71369), (71472, 71481),
     (71904, 71913), (72016, 72025), (72784, 72793), (73040, 73049), (73120, 73129), (92768, 92777),
     (92864, 92873), (93008, 93017), (120782, 120831), (123200, 123209), (123632, 123641), (125264, 125273),
     (130032, 130041)]"

definition word_ranges :: "(nat \<times> nat) list" where
  "word_ranges = [
     (170, 170), (178, 179), (181, 181), (185, 186), (188, 190), (192, 214),
     (216, 246), (248, 705), (710, 721), (736, 740), (748, 748), (750, 750),
     (880, 884), (886, 887), (890, 893), (895, 895), (902, 902), (904, 906),
     (908, 908), (910, 929), (931, 1013), (1015, 1153), (1162, 1327), (1329, 1366),
     (1369, 1369), (1376, 1416), (1488, 1514), (1519, 1522), (1568, 1610), (1632, 1641),
     (1646, 1647), (1649, 1747), (1749, 1749), (1765, 1766), (1774, 1788), (1791, 1791),
     (1808, 1808), (1810, 1839), (1869, 1957), (1969, 1969), (1984, 2026), (2036, 2037),
     (2042, 2042), (2048, 2069), (2074, 2074), (2084, 2084), (2088, 2088), (2112, 2136),
     (2144, 2154), (2160, 2183), (2185, 2190), (2208, 2249), (2308, 2361), (2365, 2365),
     (2384, 2384), (2392, 2401), (2406, 2415), (2417, 2432), (2437, 2444), (2447, 2448),
     (2451, 2472), (2474, 2480), (2482, 2482), (2486, 2489), (2493, 2493), (2510, 2510),
     (2524, 2525), (2527, 2529), (2534, 2545), (2548, 2553), (2556, 2556), (2565, 2570),
     (2575, 2576), (2579, 2600), (2602, 2608), (2610, 2611), (2613, 2614), (2616, 2617),
     (2649, 2652), (2654, 2654), (2662, 2671), (2674, 2676), (2693, 2701), (2703, 2705),
     (2707, 2728), (2730, 2736), (2738, 2739), (2741, 2745), (2749, 2749), (2768, 2768),
     (2784, 2785), (2790, 2799), (2809, 2809), (2821, 2828), (2831, 2832), (2835, 2856),
     (2858, 2864), (2866, 2867), (2869, 2873), (2877, 2877), (2908, 2909), (2911, 2913),
     (2918, 2927), (2929, 2935), (2947, 2947), (2949, 2954), (2958, 2960), (2962, 2965),
     (2969, 2970), (2972, 2972), (2974, 2975), (2979, 2980), (2984, 2986), (2990, 3001),
     (3024, 3024), (3046, 3058), (3077, 3084), (3086, 3088), (3090, 3112), (3114, 3129),
     (3133, 3133), (3160, 3162), (3165, 3165), (3168, 3169), (3174, 3183), (3192, 3198),
     (3200, 3200), (3205, 3212), (3214, 3216), (3218, 3240), (3242, 3251), (3253, 3257),
     (3261, 3261), (3293, 3294), (3296, 3297), (3302, 3311), (3313, 3314), (3332, 3340),
     (3342, 3344), (3346, 3386), (3389, 3389), (3406, 3406), (3412, 3414), (3416, 3425),
     (3430, 3448), (3450, 3455), (3461, 3478), (3482, 3505), (3507, 3515), (3517, 3517),
     (3520, 3526), (3558, 3567), (3585, 3632), (3634, 3635), (3648, 3654), (3664, 3673),
     (3713, 3714), (3716, 3716), (3718, 3722), (3724, 3747), (3749, 3749), (3751, 3760),
     (3762, 3763), (3773, 3773), (3776, 3780), (3782, 3782), (3792, 3801), (3804, 3807),
     (3840, 3840), (3872, 3891), (3904, 3911), (3913, 3948), (3976, 3980), (4096, 4138),
     (4159, 4169), (4176, 4181), (4186, 4189), (4193, 4193), (4197, 4198), (4206, 4208),
     (4213, 4225), (4238, 4238), (4240, 4249), (4256, 4293), (4295, 4295), (4301, 4301),
     (4304, 4346), (4348, 4680), (4682, 4685), (4688, 4694), (4696, 4696), (4698, 4701),
     (4704, 4744), (4746, 4749), (4752, 4784), (4786, 4789), (4792, 4798), (4800, 4800),
     (4802, 4805), (4808, 4822), (4824, 4880), (4882, 4885), (4888, 4954), (4969, 4988),
     (4992, 5007), (5024, 5109), (5112, 5117), (5121, 5740), (5743, 5759), (5761, 5786),
     (5792, 5866), (5870, 5880), (5888, 5905), (5919, 5937), (5952, 5969), (5984, 5996),
     (5998, 6000), (6016, 6067), (6103, 6103), (6108, 6108), (6112, 6121), (6128, 6137),
     (6160, 6169), (6176, 6264), (6272, 6276), (6279, 6312), (6314, 6314), (6320, 6389),
     (6400, 6430), (6470, 6509), (6512, 6516), (6528, 6571), (6576, 6601), (6608, 6618),
     (6656, 6678), (6688, 6740), (6784, 6793), (6800, 6809), (6823, 6823), (6917, 6963),
     (6981, 6988), (6992, 7001), (7043, 7072), (7086, 7141), (7168, 7203), (7232, 7241),
     (7245, 7293), (7296, 7304), (7312, 7354), (7357, 7359), (7401, 7404), (7406, 7411),
     (7413, 7414), (7418, 7418), (7424, 7615), (7680, 7957), (7960, 7965), (7968, 8005),
     (8008, 8013), (8016, 8023), (8025, 8025), (8027, 8027), (8029, 8029), (8031, 8061),
     (8064, 8116), (8118, 8124), (8126, 8126), (8130, 8132), (8134, 8140), (8144, 8147),
     (8150, 8155), (8160, 8172), (8178, 8180), (8182, 8188), (8304, 8305), (8308, 8313),
     (8319, 8329), (8336, 8348), (8450, 8450), (8455, 8455), (8458, 8467), (8469, 8469),
     (8473, 8477), (8484, 8484), (8486, 8486), (8488, 8488), (8490, 8493), (8495, 8505),
     (8508, 8511), (8517, 8521), (8526, 8526), (8528, 8585), (9312, 9371), (9450, 9471),
     (10102, 10131), (11264, 11492), (11499, 11502), (11506, 11507), (11517, 11517), (11520, 11557),
     (11559, 11559), (11565, 11565), (11568, 11623), (11631, 11631), (11648, 11670), (11680, 11686),
     (11688, 11694), (11696, 11702), (11704, 11710), (11712, 11718), (11720, 11726), (11728, 11734),
     (11736, 11742), (11823, 11823), (12293, 12295), (12321, 12329), (12337, 12341), (12344, 12348),
     (12353, 12438), (12445, 12447), (12449, 12538), (12540, 12543), (12549, 12591), (12593, 12686),
     (12690, 12693), (12704, 12735), (12784, 12799), (12832, 12841), (12872, 12879), (12881, 12895),
     (12928, 12937), (12977, 12991), (13312, 19903), (19968, 42124), (42192, 42237), (42240, 42508),
     (42512, 42539), (42560, 42606), (42623, 42653), (42656, 42735), (42775, 42783), (42786, 42888),
     (42891, 42954), (42960, 42961), (42963, 42963), (42965, 42969), (42994, 43009), (43011, 43013),
     (43015, 43018), (43020, 43042), (43056, 43061), (43072, 43123), (43138, 43187), (43216, 43225),
     (43250, 43255), (43259, 43259), (43261, 43262), (43264, 43301), (43312, 43334), (43360, 43388),
     (43396, 43442), (43471, 43481), (43488, 43492), (43494, 43518), (43520, 43560), (43584, 43586),
     (43588, 43595), (43600, 43609), (43616, 43638), (43642, 43642), (43646, 43695), (43697, 43697),
     (43701, 43702), (43705, 43709), (43712, 43712), (43714, 43714), (43739, 43741), (43744, 43754),
     (43762, 43764), (43777, 43782), (43785, 43790), (43793, 43798), (43808, 43814), (43816, 43822),
     (43824, 43866), (43868, 43881), (43888, 44002), (44016, 44025), (44032, 55203), (55216, 55238),
     (55243, 55291), (63744, 64109), (64112, 64217), (64256, 64262), (64275, 64279), (64285, 64285),
     (64287, 64296), (64298, 64310), (64312, 64316), (64318, 64318), (64320, 64321), (64323, 64324),
     (64326, 64433), (64467, 64829), (64848, 64911), (64914, 64967), (65008, 65019), (65136, 65140),
     (65142, 65276), (65296, 65305), (65313, 65338), (65345, 65370), (65382, 65470), (65474, 65479),
     (65482, 65487), (65490, 65495), (65498, 65500), (65536, 65547), (65549, 65574), (65576, 65594),
     (65596, 65597), (65599, 65613), (65616, 65629), (65664, 65786), (65799, 65843), (65856, 65912),
     (65930, 65931), (66176, 66204), (66208, 66256), (66273, 66299), (66304, 66339), (66349, 66378),
     (66384, 66421), (66432, 66461), (66464, 66499), (66504, 66511), (66513, 66517), (66560, 66717),
     (66720, 66729), (66736, 66771), (66776, 66811), (66816, 66855), (66864, 66915), (66928, 66938),
     (66940, 66954), (66956, 66962), (66964, 66965), (66967, 66977), (66979, 66993), (66995, 67001),
     (67003, 67004), (67072, 67382), (67392, 67413), (67424, 67431), (67456, 67461), (67463, 67504),
     (67506, 67514), (67584, 67589), (67592, 67592), (67594, 67637), (67639, 67640), (67644, 67644),
     (67647, 67669), (67672, 67702), (67705, 67742), (67751, 67759), (67808, 67826), (67828, 67829),
     (67835, 67867), (67872, 67897), (67968, 68023), (68028, 68047), (68050, 68096), (68112, 68115),
     (68117, 68119), (68121, 68149), (68160, 68168), (68192, 68222), (68224, 68255), (68288, 68295),
     (68297, 68324), (68331, 68335), (68352, 68405), (68416, 68437), (68440, 68466), (68472, 68497),
     (68521, 68527), (68608, 68680), (68736, 68786), (68800, 68850), (68858, 68899), (68912, 68921),
     (69216, 69246), (69248, 69289), (69296, 69297), (69376, 69415), (69424, 69445), (69457, 69460),
     (69488, 69505), (69552, 69579), (69600, 69622), (69635, 69687), (69714, 69743), (69745, 69746),
     (69749, 69749), (69763, 69807), (69840, 69864), (69872, 69881), (69891, 69926), (69942, 69951),
     (69956, 69956), (69959, 69959), (69968, 70002), (70006, 70006), (70019, 70066), (70081, 70084),
     (70096, 70106), (70108, 70108), (70113, 70132), (70144, 70161), (70163, 70187), (70272, 70278),
     (70280, 70280), (70282, 70285), (70287, 70301), (70303, 70312), (70320, 70366), (70384, 70393),
     (70405, 70412), (70415, 70416), (70419, 70440), (70442, 70448), (70450, 70451), (70453, 70457),
     (70461, 70461), (70480, 70480), (70493, 70497), (70656, 70708), (70727, 70730), (70736, 70745),
     (70751, 70753), (70784, 70831), (70852, 70853), (70855, 70855), (70864, 70873), (71040, 71086),
     (71128, 71131), (71168, 71215), (71236, 71236), (71248, 71257), (71296, 71338), (71352, 71352),
     (71360, 71369), (71424, 71450), (71472, 71483), (71488, 71494), (71680, 71723), (71840, 71922),
     (71935, 71942), (71945, 71945), (71948, 71955), (71957, 71958), (71960, 71983), (71999, 71999),
     (72001, 72001), (72016, 72025), (72096, 72103), (72106, 72144), (72161, 72161), (72163, 72163),
     (72192, 72192), (72203, 72242), (72250, 72250), (72272, 72272), (72284, 72329), (72349, 72349),
     (72368, 72440), (72704, 72712), (72714, 72750), (72768, 72768), (72784, 72812), (72818, 72847),
     (72960, 72966), (72968, 72969), (72971, 73008), (73030, 73030), (73040, 73049), (73056, 73061),
     (73063, 73064), (73066, 73097), (73112, 73112), (73120, 73129), (73440, 73458), (73648, 73648),
     (73664, 73684), (73728, 74649), (74752, 74862), (74880, 75075), (77712, 77808), (77824, 78894),
     (82944, 83526), (92160, 92728), (92736, 92766), (92768, 92777), (92784, 92862), (92864, 92873),
     (92880, 92909), (92928, 92975), (92992, 92995), (93008, 93017), (93019, 93025), (93027, 93047),
     (93053, 93071), (93760, 93846), (93952, 94026), (94032, 94032), (94099, 94111), (94176, 94177),
     (94179, 94179), (94208, 100343), (100352, 101589), (101632, 101640), (110576, 110579), (110581, 110587),
     (110589, 110590), (110592, 110882), (110928, 110930), (110948, 110951), (110960, 111355), (113664, 113770),
     (113776, 113788), (113792, 113800), (113808, 113817), (119520, 119539), (119648, 119672), (119808, 119892),
     (119894, 119964), (119966, 119967), (119970, 119970), (119973, 119974), (119977, 119980), (119982, 119993),
     (119995, 119995), (119997, 120003), (120005, 120069), (120071, 120074), (120077, 120084), (120086, 120092),
     (120094, 120121), (120123, 120126), (120128, 120132), (120134, 120134), (120138, 120144), (120146, 120485),
     (120488, 120512), (120514, 120538), (120540, 120570), (120572, 120596), (120598, 120628), (120630, 120654),
     (120656, 120686), (120688, 120712), (120714, 120744), (120746, 120770), (120772, 120779), (120782, 120831),
     (122624, 122654), (123136, 123180), (123191, 123197), (123200, 123209), (123214, 123214), (123536, 123565),
     (123584, 123627), (123632, 123641), (124896, 124902), (124904, 124907), (124909, 124910), (124912, 124926),
     (124928, 125124), (125127, 125135), (125184, 125251), (125259, 125259), (125264, 125273), (126065, 126123),
     (126125, 126127), (126129, 126132), (126209, 126253), (126255, 126269), (126464, 126467), (126469, 126495),
     (126497, 126498), (126500, 126500), (126503, 126503), (126505, 126514), (126516, 126519), (126521, 126521),
     (126523, 126523), (126530, 126530), (126535, 126535), (126537, 126537), (126539, 126539), (126541, 126543),
     (126545, 126546), (126548, 126548), (126551, 126551), (126553, 126553), (126555, 126555), (126557, 126557),
     (126559, 126559), (126561, 126562), (126564, 126564), (126567, 126570), (126572, 126578), (126580, 126583),
     (126585, 126588), (126590, 126590), (126592, 126601), (126603, 126619), (126625, 126627), (126629, 126633),
     (126635, 126651), (127232, 127244), (130032, 130041), (131072, 173791), (173824, 177976), (177984, 178205),
     (178208, 183969), (183984, 191456), (194560, 195101), (196608, 201546)]"

definition lower_table :: "(nat \<times> nat \<times> nat \<times> nat) list" where
  "lower_table = [
     (192, 214, 1, 224), (216, 222, 1, 248), (256, 302, 2, 257), (306, 310, 2, 307),
     (313, 327, 2, 314), (330, 374, 2, 331), (376, 376, 1, 255), (377, 381, 2, 378),
     (385, 385, 1, 595), (386, 388, 2, 387), (390, 390, 1, 596), (391, 391, 1, 392),
     (393, 394, 1, 598), (395, 395, 1, 396), (398, 398, 1, 477), (399, 399, 1, 601),
     (400, 400, 1, 603), (401, 401, 1, 402), (403, 403, 1, 608), (404, 404, 1, 611),
     (406, 406, 1, 617), (407, 407, 1, 616), (408, 408, 1, 409), (412, 412, 1, 623),
     (413, 413, 1, 626), (415, 415, 1, 629), (416, 420, 2, 417), (422, 422, 1, 640),
     (423, 423, 1, 424), (425, 425, 1, 643), (428, 428, 1, 429), (430, 430, 1, 648),
     (431, 431, 1, 432), (433, 434, 1, 650), (435, 437, 2, 436), (439, 439, 1, 658),
     (440, 440, 1, 441), (444, 444, 1, 445), (452, 452, 1, 454), (453, 453, 1, 454),
     (455, 455, 1, 457), (456, 456, 1, 457), (458, 458, 1, 460), (459, 475, 2, 460),
     (478, 494, 2, 479), (497, 497, 1, 499), (498, 500, 2, 499), (502, 502, 1, 405),
     (503, 503, 1, 447), (504, 542, 2, 505), (544, 544, 1, 414), (546, 562, 2, 547),
     (570, 570, 1, 11365), (571, 571, 1, 572), (573, 573, 1, 410), (574, 574, 1, 11366),
     (577, 577, 1, 578), (579, 579, 1, 384), (580, 580, 1, 649), (581, 581, 1, 652),
     (582, 590, 2, 583), (880, 882, 2, 881), (886, 886, 1, 887), (895, 895, 1, 1011),
     (902, 902, 1, 940), (904, 906, 1, 941), (908, 908, 1, 972), (910, 911, 1, 973),
     (913, 929, 1, 945), (932, 939, 1, 964), (975, 975, 1, 983), (984, 1006, 2, 985),
     (1012, 1012, 1, 952), (1015, 1015, 1, 1016), (1017, 1017, 1, 1010), (1018, 1018, 1, 1019),
     (1021, 1023, 1, 891), (1024, 1039, 1, 1104), (1040, 1071, 1, 1072), (1120, 1152, 2, 1121),
     (1162, 1214, 2, 1163), (1216, 1216, 1, 1231), (1217, 1229, 2, 1218), (1232, 1326, 2, 1233),
     (1329, 1366, 1, 1377), (4256, 4293, 1, 11520), (4295, 4295, 1, 11559), (4301, 4301, 1, 11565),
     (5024, 5103, 1, 43888), (5104, 5109, 1, 5112), (7312, 7354, 1, 4304), (7357, 7359, 1, 4349),
     (7680, 7828, 2, 7681), (7838, 7838, 1, 223), (7840, 7934, 2, 7841), (7944, 7951, 1, 7936),
     (7960, 7965, 1, 7952), (7976, 7983, 1, 7968), (7992, 7999, 1, 7984), (8008, 8013, 1, 8000),
     (8025, 8031, 2, 8017), (8040, 8047, 1, 8032), (8072, 8079, 1, 8064), (8088, 8095, 1, 8080),
     (8104, 8111, 1, 8096), (8120, 8121, 1, 8112), (8122, 8123, 1, 8048), (8124, 8124, 1, 8115),
     (8136, 8139, 1, 8050), (8140, 8140, 1, 8131), (8152, 8153, 1, 8144), (8154, 8155, 1, 8054),
     (8168, 8169, 1, 8160), (8170, 8171, 1, 8058), (8172, 8172, 1, 8165), (8184, 8185, 1, 8056),
     (8186, 8187, 1, 8060), (8188, 8188, 1, 8179), (8486, 8486, 1, 969), (8490, 8490, 1, 107),
     (8491, 8491, 1, 229), (8498, 8498, 1, 8526), (8544, 8559, 1, 8560), (8579, 8579, 1, 8580),
     (9398, 9423, 1, 9424), (11264, 11311, 1, 11312), (11360, 11360, 1, 11361), (11362, 11362, 1, 619),
     (11363, 11363, 1, 7549), (11364, 11364, 1, 637), (11367, 11371, 2, 11368), (11373, 11373, 1, 593),
     (11374, 11374, 1, 625), (11375, 11375, 1, 592), (11376, 11376, 1, 594), (11378, 11378, 1, 11379),
     (11381, 11381, 1, 11382), (11390, 11391, 1, 575), (11392, 11490, 2, 11393), (11499, 11501, 2, 11500),
     (11506, 11506, 1, 11507), (42560, 42604, 2, 42561), (42624, 42650, 2, 42625), (42786, 42798, 2, 42787),
     (42802, 42862, 2, 42803), (42873, 42875, 2, 42874), (42877, 42877, 1, 7545), (42878, 42886, 2, 42879),
     (42891, 42891, 1, 42892), (42893, 42893, 1, 613), (42896, 42898, 2, 42897), (42902, 42920, 2, 42903),
     (42922, 42922, 1, 614), (42923, 42923, 1, 604), (42924, 42924, 1, 609), (42925, 42925, 1, 620),
     (42926, 42926, 1, 618), (42928, 42928, 1, 670), (42929, 42929, 1, 647), (42930, 42930, 1, 669),
     (42931, 42931, 1, 43859), (42932, 42946, 2, 42933), (42948, 42948, 1, 42900), (42949, 42949, 1, 642),
     (42950, 42950, 1, 7566), (42951, 42953, 2, 42952), (42960, 42960, 1, 42961), (42966, 42968, 2, 42967),
     (42997, 42997, 1, 42998), (65313, 65338, 1, 65345), (66560, 66599, 1, 66600), (66736, 66771, 1, 66776),
     (66928, 66938, 1, 66967), (66940, 66954, 1, 66979), (66956, 66962, 1, 66995), (66964, 66965, 1, 67003),
     (68736, 68786, 1, 68800), (71840, 71871, 1, 71872), (93760, 93791, 1, 93792), (125184, 125217, 1, 125218)]"

definition case_ignorable_ranges :: "(nat \<times> nat) list" where
  "case_ignorable_ranges = [
     (39, 39), (46, 46), (58, 58), (94, 94), (96, 96), (168, 168),
     (173, 173), (175, 175), (180, 180), (183, 184), (688, 879), (884, 885),
     (890, 890), (900, 901), (903, 903), (1155, 1161), (1369, 1369), (1375, 1375),
     (1425, 1469), (1471, 1471), (1473, 1474), (1476, 1477), (1479, 1479), (1524, 1524),
     (1536, 1541), (1552, 1562), (1564, 1564), (1600, 1600), (1611, 1631), (1648, 1648),
     (1750, 1757), (1759, 1768), (1770, 1773), (1807, 1807), (1809, 1809), (1840, 1866),
     (1958, 1968), (2027, 2037), (2042, 2042), (2045, 2045), (2070, 2093), (2137, 2139),
     (2184, 2184), (2192, 2193), (2200, 2207), (2249, 2306), (2362, 2362), (2364, 2364),
     (2369, 2376), (2381, 2381), (2385, 2391), (2402, 2403), (2417, 2417), (2433, 2433),
     (2492, 2492), (2497, 2500), (2509, 2509), (2530, 2531), (2558, 2558), (2561, 2562),
     (2620, 2620), (2625, 2626), (2631, 2632), (2635, 2637), (2641, 2641), (2672, 2673),
     (2677, 2677), (2689, 2690), (2748, 2748), (2753, 2757), (2759, 2760), (2765, 2765),
     (2786, 2787), (2810, 2815), (2817, 2817), (2876, 2876), (2879, 2879), (2881, 2884),
     (2893, 2893), (2901, 2902), (2914, 2915), (2946, 2946), (3008, 3008), (3021, 3021),
     (3072, 3072), (3076, 3076), (3132, 3132), (3134, 3136), (3142, 3144), (3146, 3149),
     (3157, 3158), (3170, 3171), (3201, 3201), (3260, 3260), (3263, 3263), (3270, 3270),
     (3276, 3277), (3298, 3299), (3328, 3329), (3387, 3388), (3393, 3396), (3405, 3405),
     (3426, 3427), (3457, 3457), (3530, 3530), (3538, 3540), (3542, 3542), (3633, 3633),
     (3636, 3642), (3654, 3662), (3761, 3761), (3764, 3772), (3782, 3782), (3784, 3789),
     (3864, 3865), (3893, 3893), (3895, 3895), (3897, 3897), (3953, 3966), (3968, 3972),
     (3974, 3975), (3981, 3991), (3993, 4028), (4038, 4038), (4141, 4144), (4146, 4151),
     (4153, 4154), (4157, 4158), (4184, 4185), (4190, 4192), (4209, 4212), (4226, 4226),
     (4229, 4230), (4237, 4237), (4253, 4253), (4348, 4348), (4957, 4959), (5906, 5908),
     (5938, 5939), (5970, 5971), (6002, 6003), (6068, 6069), (6071, 6077), (6086, 6086),
     (6089, 6099), (6103, 6103), (6109, 6109), (6155, 6159), (6211, 6211), (6277, 6278),
     (6313, 6313), (6432, 6434), (6439, 6440), (6450, 6450), (6457, 6459), (6679, 6680),
     (6683, 6683), (6742, 6742), (6744, 6750), (6752, 6752), (6754, 6754), (6757, 6764),
     (6771, 6780), (6783, 6783), (6823, 6823), (6832, 6862), (6912, 6915), (6964, 6964),
     (6966, 6970), (6972, 6972), (6978, 6978), (7019, 7027), (7040, 7041), (7074, 7077),
     (7080, 7081), (7083, 7085), (7142, 7142), (7144, 7145), (7149, 7149), (7151, 7153),
     (7212, 7219), (7222, 7223), (7288, 7293), (7376, 7378), (7380, 7392), (7394, 7400),
     (7405, 7405), (7412, 7412), (7416, 7417), (7468, 7530), (7544, 7544), (7579, 7679),
     (8125, 8125), (8127, 8129), (8141, 8143), (8157, 8159), (8173, 8175), (8189, 8190),
     (8203, 8207), (8216, 8217), (8228, 8228), (8231, 8231), (8234, 8238), (8288, 8292),
     (8294, 8303), (8305, 8305), (8319, 8319), (8336, 8348), (8400, 8432), (11388, 11389),
     (11503, 11505), (11631, 11631), (11647, 11647), (11744, 11775), (11823, 11823), (12293, 12293),
     (12330, 12333), (12337, 12341), (12347, 12347), (12441, 12446), (12540, 12542), (40981, 40981),
     (42232, 42237), (42508, 42508), (42607, 42610), (42612, 42621), (42623, 42623), (42652, 42655),
     (42736, 42737), (42752, 42785), (42864, 42864), (42888, 42890), (42994, 42996), (43000, 43001),
     (43010, 43010), (43014, 43014), (43019, 43019), (43045, 43046), (43052, 43052), (43204, 43205),
     (43232, 43249), (43263, 43263), (43302, 43309), (43335, 43345), (43392, 43394), (43443, 43443),
     (43446, 43449), (43452, 43453), (43471, 43471), (43493, 43494), (43561, 43566), (43569, 43570),
     (43573, 43574), (43587, 43587), (43596, 43596), (43632, 43632), (43644, 43644), (43696, 43696),
     (43698, 43700), (43703, 43704), (43710, 43711), (43713, 43713), (43741, 43741), (43756, 43757),
     (43763, 43764), (43766, 43766), (43867, 43871), (43881, 43883), (44005, 44005), (44008, 44008),
     (44013, 44013), (64286, 64286), (64434, 64450), (65024, 65039), (65043, 65043), (65056, 65071),
     (65106, 65106), (65109, 65109), (65279, 65279), (65287, 65287), (65294, 65294), (65306, 65306),
     (65342, 65342), (65344, 65344), (65392, 65392), (65438, 65439), (65507, 65507), (65529, 65531),
     (66045, 66045), (66272, 66272), (66422, 66426), (67456, 67461), (67463, 67504), (67506, 67514),
     (68097, 68099), (68101, 68102), (68108, 68111), (68152, 68154), (68159, 68159), (68325, 68326),
     (68900, 68903), (69291, 69292), (69446, 69456), (69506, 69509), (69633, 69633), (69688, 69702),
     (69744, 69744), (69747, 69748), (69759, 69761), (69811, 69814), (69817, 69818), (69821, 69821),
     (69826, 69826), (69837, 69837), (69888, 69890), (69927, 69931), (69933, 69940), (70003, 70003),
     (70016, 70017), (70070, 70078), (70089, 70092), (70095, 70095), (70191, 70193), (70196, 70196),
     (70198, 70199), (70206, 70206), (70367, 70367), (70371, 70378), (70400, 70401), (70459, 70460),
     (70464, 70464), (70502, 70508), (70512, 70516), (70712, 70719), (70722, 70724), (70726, 70726),
     (70750, 70750), (70835, 70840), (70842, 70842), (70847, 70848), (70850, 70851), (71090, 71093),
     (71100, 71101), (71103, 71104), (71132, 71133), (71219, 71226), (71229, 71229), (71231, 71232),
     (71339, 71339), (71341, 71341), (71344, 71349), (71351, 71351), (71453, 71455), (71458, 71461),
     (71463, 71467), (71727, 71735), (71737, 71738), (71995, 71996), (71998, 71998), (72003, 72003),
     (72148, 72151), (72154, 72155), (72160, 72160), (72193, 72202), (72243, 72248), (72251, 72254),
     (72263, 72263), (72273, 72278), (72281, 72283), (72330, 72342), (72344, 72345), (72752, 72758),
     (72760, 72765), (72767, 72767), (72850, 72871), (72874, 72880), (72882, 72883), (72885, 72886),
     (73009, 73014), (73018, 73018), (73020, 73021), (73023, 73029), (73031, 73031), (73104, 73105),
     (73109, 73109), (73111, 73111), (73459, 73460), (78896, 78904), (92912, 92916), (92976, 92982),
     (92992, 92995), (94031, 94031), (94095, 94111), (94176, 94177), (94179, 94180), (110576, 110579),
     (110581, 110587), (110589, 110590), (113821, 113822), (113824, 113827), (118528, 118573), (118576, 118598),
     (119143, 119145), (119155, 119170), (119173, 119179), (119210, 119213), (119362, 119364), (121344, 121398),
     (121403, 121452), (121461, 121461), (121476, 121476), (121499, 121503), (121505, 121519), (122880, 122886),
     (122888, 122904), (122907, 122913), (122915, 122916), (122918, 122922), (123184, 123197), (123566, 123566),
     (123628, 123631), (125136, 125142), (125252, 125259), (127995, 127999), (917505, 917505), (917536, 917631),
     (917760, 917999)]"

definition cased_ranges :: "(nat \<times> nat) list" where
  "cased_ranges = [
     (65, 90), (97, 122), (170, 170), (181, 181), (186, 186), (192, 214),
     (216, 246), (248, 442), (444, 447), (452, 659), (661, 687), (880, 883),
     (886, 887), (891, 893), (895, 895), (902, 902), (904, 906), (908, 908),
     (910, 929), (931, 1013), (1015, 1153), (1162, 1327), (1329, 1366), (1376, 1416),
     (4256, 4293), (4295, 4295), (4301, 4301), (4304, 4346), (4349, 4351), (5024, 5109),
     (5112, 5117), (7296, 7304), (7312, 7354), (7357, 7359), (7424, 7467), (7531, 7543),
     (7545, 7578), (7680, 7957), (7960, 7965), (7968, 8005), (8008, 8013), (8016, 8023),
     (8025, 8025), (8027, 8027), (8029, 8029), (8031, 8061), (8064, 8116), (8118, 8124),
     (8126, 8126), (8130, 8132), (8134, 8140), (8144, 8147), (8150, 8155), (8160, 8172),
     (8178, 8180), (8182, 8188), (8450, 8450), (8455, 8455), (8458, 8467), (8469, 8469),
     (8473, 8477), (8484, 8484), (8486, 8486), (8488, 8488), (8490, 8493), (8495, 8500),
     (8505, 8505), (8508, 8511), (8517, 8521), (8526, 8526), (8544, 8575), (8579, 8580),
     (9398, 9449), (11264, 11387), (11390, 11492), (11499, 11502), (11506, 11507), (11520, 11557),
     (11559, 11559), (11565, 11565), (42560, 42605), (42624, 42651), (42786, 42863), (42865, 42887),
     (42891, 42894), (42896, 42954), (42960, 42961), (42963, 42963), (42965, 42969), (42997, 42998),
     (43002, 43002), (43824, 43866), (43872, 43880), (43888, 43967), (64256, 64262), (64275, 64279),
     (65313, 65338), (65345, 65370), (66560, 66639), (66736, 66771), (66776, 66811), (66928, 66938),
     (66940, 66954), (66956, 66962), (66964, 66965), (66967, 66977), (66979, 66993), (66995, 67001),
     (67003, 67004), (68736, 68786), (68800, 68850), (71840, 71903), (93760, 93823), (119808, 119892),
     (119894, 119964), (119966, 119967), (119970, 119970), (119973, 119974), (119977, 119980), (119982, 119993),
     (119995, 119995), (119997, 120003), (120005, 120069), (120071, 120074), (120077, 120084), (120086, 120092),
     (120094, 120121), (120123, 120126), (120128, 120132), (120134, 120134), (120138, 120144), (120146, 120485),
     (120488, 120512), (120514, 120538), (120540, 120570), (120572, 120596), (120598, 120628), (120630, 120654),
     (120656, 120686), (120688, 120712), (120714, 120744), (120746, 120770), (120772, 120779), (122624, 122633),
     (122635, 122654), (125184, 125251), (127280, 127305), (127312, 127337), (127344, 127369)]"

definition in_ranges :: "(nat \<times> nat) list \<Rightarrow> nat \<Rightarrow> bool" where
  "in_ranges rs c = list_ex (\<lambda>(a, b). a \<le> c \<and> c \<le> b) rs"

definition is_digit :: "nat \<Rightarrow> bool" where
  "is_digit c = (if c < 128 then 48 \<le> c \<and> c \<le> 57 else in_ranges digit_ranges c)"

definition is_word :: "nat \<Rightarrow> bool" where
  "is_word c =
     (if c < 128
      then (48 \<le> c \<and> c \<le> 57) \<or> (65 \<le> c \<and> c \<le> 90) \<or> (97 \<le> c \<and> c \<le> 122) \<or> c = 95
      else in_ranges word_ranges c)"

text \<open>
  \<^verbatim>\<open>str.lower\<close>.  A code point has one lower-case code point, except U+0130, which has
  two, and the capital sigma U+03A3, which becomes the final sigma U+03C2 at the end of a
  word and U+03C3 elsewhere: it is final when the nearest code point before it that is not
  case-ignorable is cased, and the nearest one after it that is not case-ignorable, if
  there is one, is not cased.
\<close>

definition lower_char :: "nat \<Rightarrow> nat" where
  "lower_char c =
     (if c < 128 then (if 65 \<le> c \<and> c \<le> 90 then c + 32 else c)
      else (case find (\<lambda>(a, b, k, a'). a \<le> c \<and> c \<le> b \<and> (c - a) mod k = 0) lower_table of
              None \<Rightarrow> c
            | Some (a, b, k, a') \<Rightarrow> a' + (c - a)))"

definition lower_full :: "nat \<Rightarrow> pystr" where
  "lower_full c = (if c = 304 then [105, 775] else [lower_char c])"

definition final_sigma :: "pystr \<Rightarrow> pystr \<Rightarrow> bool" where
  "final_sigma before after =
     ((case dropWhile (in_ranges case_ignorable_ranges) before of
         [] \<Rightarrow> False | c # cs \<Rightarrow> in_ranges cased_ranges c)
      \<and> (case dropWhile (in_ranges case_ignorable_ranges) after of
            [] \<Rightarrow> True | c # cs \<Rightarrow> \<not> in_ranges cased_ranges c))"

text \<open>\<open>lower_from before s\<close>: the text \<open>s\<close> in lower case, after the text \<open>rev before\<close>.\<close>

fun lower_from :: "pystr \<Rightarrow> pystr \<Rightarrow> pystr" where
  "lower_from before [] = []"
| "lower_from before (c # s) =
     (if c = 931 then [if final_sigma before s then 962 else 963] else lower_full c)
     @ lower_from (c # before) s"

definition lower :: "pystr \<Rightarrow> pystr" where
  "lower s = lower_from [] s"

text \<open>
  IGNORECASE: the code points that an ASCII character of a pattern matches.  Python
  compares the lower case of single code points; apart from the two cases of a letter,
  \<^verbatim>\<open>i\<close> also matches U+0130 and U+0131, \<^verbatim>\<open>k\<close> also U+212A, and \<^verbatim>\<open>s\<close> also U+017F.
\<close>

definition caseless :: "nat \<Rightarrow> nat list" where
  "caseless c =
     (if c = 73 \<or> c = 105 then [73, 105, 304, 305]
      else if c = 75 \<or> c = 107 then [75, 107, 8490]
      else if c = 83 \<or> c = 115 then [83, 115, 383]
      else if 65 \<le> c \<and> c \<le> 90 then [c, c + 32]
      else if 97 \<le> c \<and> c \<le> 122 then [c, c - 32]
      else [c])"

definition lstrip :: "pystr \<Rightarrow> pystr" where
  "lstrip s = dropWhile is_space s"

definition strip :: "pystr \<Rightarrow> pystr" where
  "strip s = rev (dropWhile is_space (rev (dropWhile is_space s)))"

text \<open>\<^verbatim>\<open>s.split(c)\<close> for a one-character separator, and \<^verbatim>\<open>sep.join(parts)\<close>.\<close>

fun split_on :: "nat \<Rightarrow> pystr \<Rightarrow> pystr list" where
  "split_on c [] = [[]]"
| "split_on c (x # xs) =
     (if x = c then [] # split_on c xs
      else (case split_on c xs of [] \<Rightarrow> [[x]] | l # ls \<Rightarrow> (x # l) # ls))"

fun join :: "pystr \<Rightarrow> pystr list \<Rightarrow> pystr" where
  "join sep [] = []"
| "join sep [p] = p"
| "join sep (p # q # ps) = p @ sep @ join sep (q # ps)"

text \<open>
  \<^verbatim>\<open>s.replace(old, new)\<close>: every occurrence of \<open>old\<close>, left to right, without overlap.
  The program never replaces the empty string; for it the text is returned as it is.
\<close>

function str_replace :: "pystr \<Rightarrow> pystr \<Rightarrow> pystr \<Rightarrow> pystr" where
  "str_replace old new [] = []"
| "str_replace old new (c # s) =
     (if old \<noteq> [] \<and> prefix old (c # s)
      then new @ str_replace old new (drop (length old) (c # s))
      else c # str_replace old new s)"
  by pat_completeness auto
termination
  by (relation "measure (\<lambda>(old, new, s). length s)") auto

section \<open>Regular expressions of the \<^verbatim>\<open>re\<close> module\<close>

text \<open>
  The fragment of \<^verbatim>\<open>re\<close> that the program uses: character classes, concatenation,
  alternation, greedy and lazy counted repetition, one capturing group, look-ahead,
  \<^verbatim>\<open>^\<close> under MULTILINE and \<^verbatim>\<open>\Z\<close>.  IGNORECASE is applied when a pattern is written
  (\<open>ilit\<close>; it changes the literals only, the classes of the patterns compiled with it hold
  no letters), DOTALL by the choice between \<open>dot\<close> and \<open>anychar\<close>.
\<close>

datatype citem = Is nat | Btw nat nat | Space | Digit | Word

fun item_has :: "citem \<Rightarrow> nat \<Rightarrow> bool" where
  "item_has (Is a) c = (c = a)"
| "item_has (Btw a b) c = (a \<le> c \<and> c \<le> b)"
| "item_has Space c = is_space c"
| "item_has Digit c = is_digit c"
| "item_has Word c = is_word c"

datatype cclass = In "citem list" | NotIn "citem list"

fun accepts :: "cclass \<Rightarrow> nat \<Rightarrow> bool" where
  "accepts (In its) c = list_ex (\<lambda>i. item_has i c) its"
| "accepts (NotIn its) c = (\<not> list_ex (\<lambda>i. item_has i c) its)"

datatype re =
    Chr cclass
  | Eps
  | Seq re re
  | Alt re re
  | Rep bool nat "nat option" re
  | Grp re
  | Look re
  | Bol
  | Eos

text \<open>
  A matcher state: whether the position is at the start of a line, the text not yet
  consumed, and the text of group 1.  \<open>matches r st\<close> lists the states in which a match
  of \<open>r\<close> from \<open>st\<close> can end, in the order in which the backtracking matcher of Python
  tries them; the match that Python reports is the first of the list.
\<close>

type_synonym mstate = "bool \<times> pystr \<times> pystr option"

fun rest :: "mstate \<Rightarrow> pystr" where
  "rest (b, s, g) = s"

text \<open>
  \<open>rep f gr lo hi\<close>: between \<open>lo\<close> and \<open>hi\<close> rounds of the body \<open>f\<close>, most rounds first
  when greedy (\<open>gr\<close>), fewest first when lazy.  A round that consumes nothing ends the
  loop, as in Python; every repeated body of the program's patterns consumes a
  character.
\<close>

function rep :: "(mstate \<Rightarrow> mstate list) \<Rightarrow> bool \<Rightarrow> nat \<Rightarrow> nat option \<Rightarrow> mstate \<Rightarrow> mstate list" where
  "rep f gr lo hi st =
     (if gr
      then (if hi = Some 0 then []
            else concat (map (rep f gr (lo - 1) (map_option (\<lambda>h. h - 1) hi))
                   (filter (\<lambda>st'. length (rest st') < length (rest st)) (f st))))
           @ (if lo = 0 then [st] else [])
      else (if lo = 0 then [st] else [])
           @ (if hi = Some 0 then []
              else concat (map (rep f gr (lo - 1) (map_option (\<lambda>h. h - 1) hi))
                     (filter (\<lambda>st'. length (rest st') < length (rest st)) (f st)))))"
  by pat_completeness auto
termination
  by (relation "measure (\<lambda>(f, gr, lo, hi, st). length (rest st))") auto

primrec matches :: "re \<Rightarrow> mstate \<Rightarrow> mstate list" where
  "matches (Chr k) st =
     (case st of (b, [], g) \<Rightarrow> []
      | (b, c # s, g) \<Rightarrow> if accepts k c then [(c = 10, s, g)] else [])"
| "matches Eps st = [st]"
| "matches (Seq r1 r2) st = concat (map (matches r2) (matches r1 st))"
| "matches (Alt r1 r2) st = matches r1 st @ matches r2 st"
| "matches (Rep gr lo hi r) st = rep (matches r) gr lo hi st"
| "matches (Grp r) st =
     map (\<lambda>(b, s, g). (b, s, Some (take (length (rest st) - length s) (rest st)))) (matches r st)"
| "matches (Look r) st = (if matches r st = [] then [] else [st])"
| "matches Bol st = (if fst st then [st] else [])"
| "matches Eos st = (if rest st = [] then [st] else [])"

definition match_at :: "re \<Rightarrow> bool \<Rightarrow> pystr \<Rightarrow> mstate option" where
  "match_at r b s = (case matches r (b, s, None) of [] \<Rightarrow> None | m # ms \<Rightarrow> Some m)"

text \<open>
  \<^verbatim>\<open>re.finditer\<close>: the matches from left to right without overlap, each as
  (start, end, group 1).  After a match the scan goes on at its end; where nothing
  matches, and after an empty match, it moves on by one character.  No pattern of the
  program matches the empty string.
\<close>

type_synonym span = "nat \<times> nat \<times> pystr option"

function finditer_from :: "re \<Rightarrow> nat \<Rightarrow> bool \<Rightarrow> pystr \<Rightarrow> span list" where
  "finditer_from r i b [] =
     (case match_at r b [] of None \<Rightarrow> [] | Some (b', s', g) \<Rightarrow> [(i, i, g)])"
| "finditer_from r i b (c # s) =
     (case match_at r b (c # s) of
        None \<Rightarrow> finditer_from r (Suc i) (c = 10) s
      | Some (b', s', g) \<Rightarrow>
          if length s' \<le> length s
          then (i, i + (Suc (length s) - length s'), g)
                 # finditer_from r (i + (Suc (length s) - length s')) b' s'
          else (i, i, g) # finditer_from r (Suc i) (c = 10) s)"
  by pat_completeness auto
termination
  by (relation "measure (\<lambda>(r, i, b, s). length s)") auto

definition re_finditer :: "re \<Rightarrow> pystr \<Rightarrow> span list" where
  "re_finditer r t = finditer_from r 0 True t"

text \<open>\<^verbatim>\<open>re.search\<close> is the first match of the scan, \<^verbatim>\<open>re.findall\<close> all of them.\<close>

definition re_search :: "re \<Rightarrow> pystr \<Rightarrow> span option" where
  "re_search r t = (case re_finditer r t of [] \<Rightarrow> None | m # ms \<Rightarrow> Some m)"

definition group0 :: "pystr \<Rightarrow> span \<Rightarrow> pystr" where
  "group0 t m = (case m of (a, b, g) \<Rightarrow> take (b - a) (drop a t))"

text \<open>\<^verbatim>\<open>re.sub\<close> with a fixed replacement text or the replacement \<^verbatim>\<open>\1\<close>.\<close>

datatype repl = Txt pystr | Group1

fun expand :: "repl \<Rightarrow> pystr option \<Rightarrow> pystr" where
  "expand (Txt s) g = s"
| "expand Group1 g = (case g of None \<Rightarrow> [] | Some s \<Rightarrow> s)"

fun substitute :: "repl \<Rightarrow> pystr \<Rightarrow> nat \<Rightarrow> span list \<Rightarrow> pystr" where
  "substitute rp t i [] = drop i t"
| "substitute rp t i ((a, b, g) # ms) = take (a - i) (drop i t) @ expand rp g @ substitute rp t b ms"

definition re_sub :: "re \<Rightarrow> repl \<Rightarrow> pystr \<Rightarrow> pystr" where
  "re_sub r rp t = substitute rp t 0 (re_finditer r t)"

text \<open>\<^verbatim>\<open>re.split\<close> for a pattern without groups: the pieces between the matches.\<close>

fun pieces :: "pystr \<Rightarrow> nat \<Rightarrow> span list \<Rightarrow> pystr list" where
  "pieces t i [] = [drop i t]"
| "pieces t i ((a, b, g) # ms) = take (a - i) (drop i t) # pieces t b ms"

definition re_split :: "re \<Rightarrow> pystr \<Rightarrow> pystr list" where
  "re_split r t = pieces t 0 (re_finditer r t)"

subsection \<open>Writing patterns\<close>

definition ch :: "char \<Rightarrow> citem" where
  "ch c = Is (of_char c)"

definition cls :: "citem list \<Rightarrow> re" where
  "cls its = Chr (In its)"

definition ncls :: "citem list \<Rightarrow> re" where
  "ncls its = Chr (NotIn its)"

definition dot :: re where
  "dot = Chr (NotIn [Is 10])"

definition anychar :: re where
  "anychar = Chr (NotIn [])"

definition cat :: "re list \<Rightarrow> re" where
  "cat rs = foldr Seq rs Eps"

definition alts :: "re list \<Rightarrow> re" where
  "alts rs = (case rs of [] \<Rightarrow> Eps | r # rs' \<Rightarrow> foldl Alt r rs')"

definition lit :: "string \<Rightarrow> re" where
  "lit s = cat (map (\<lambda>c. Chr (In [Is (of_char c)])) s)"

definition ilit :: "string \<Rightarrow> re" where
  "ilit s = cat (map (\<lambda>c. Chr (In (map Is (caseless (of_char c))))) s)"

definition star :: "re \<Rightarrow> re" where
  "star r = Rep True 0 None r"

definition plus_re :: "re \<Rightarrow> re" where
  "plus_re r = Rep True 1 None r"

definition opt :: "re \<Rightarrow> re" where
  "opt r = Rep True 0 (Some 1) r"

definition atleast :: "nat \<Rightarrow> re \<Rightarrow> re" where
  "atleast n r = Rep True n None r"

definition lazy_star :: "re \<Rightarrow> re" where
  "lazy_star r = Rep False 0 None r"


definition az :: citem where "az = Btw 97 122"
definition AZ :: citem where "AZ = Btw 65 90"
definition d09 :: citem where "d09 = Btw 48 57"

section \<open>The record of one email thread\<close>

text \<open>
  The dictionaries that \<^verbatim>\<open>select_350_emails.py\<close> reads from \<^verbatim>\<open>emails.json\<close>.  The key \<^verbatim>\<open>from\<close> is the field \<open>e_from\<close>, \<^verbatim>\<open>to\<close> is \<open>e_to\<close>, \<^verbatim>\<open>time\<close> is \<open>e_time\<close>.
\<close>

record email =
  thread_id :: pystr
  num_memories :: int
  num_headlines :: nat
  headlines :: "pystr option"
  topics :: pystr
  people :: pystr
  anchors :: pystr
  full_content :: pystr
  email_preview :: pystr
  personal_or_work :: pystr
  e_from :: pystr
  e_to :: pystr
  subject :: pystr
  e_time :: pystr

section \<open>\<^verbatim>\<open>select_350_emails.py\<close>: the stratified sampler\<close>

definition WORK_TARGETS :: "(string \<times> int) list" where
  "WORK_TARGETS = [(''1-msg'', 100), (''2-msg'', 60), (''3+msg'', 40)]"

definition PERSONAL_TARGETS :: "(string \<times> int) list" where
  "PERSONAL_TARGETS = [(''1-msg'', 75), (''2-msg'', 45), (''3+msg'', 30)]"

definition MAX_PER_SENDER :: int where
  "MAX_PER_SENDER = 10"

text \<open>\<^verbatim>\<open>^Message \d+\<close> under MULTILINE.\<close>

definition p_message :: re where
  "p_message = cat [Bol, lit ''Message '', plus_re (cls [Digit])]"

definition count_messages :: "email \<Rightarrow> nat" where
  "count_messages e = length (re_finditer p_message (full_content e))"

definition get_message_bucket :: "email \<Rightarrow> string" where
  "get_message_bucket e =
     (let msg_count = count_messages e in
      if msg_count = 1 then ''1-msg''
      else if msg_count = 2 then ''2-msg''
      else if msg_count \<ge> 3 then ''3+msg''
      else ''1-msg'')"

text \<open>\<^verbatim>\<open>[\w\.-]+@[\w\.-]+\<close>\<close>

definition p_address :: re where
  "p_address = cat [plus_re (cls [Word, ch CHR ''.'', ch CHR ''-'']), lit ''@'',
                    plus_re (cls [Word, ch CHR ''.'', ch CHR ''-''])]"

definition extract_sender :: "email \<Rightarrow> pystr" where
  "extract_sender e =
     (let from_field = lower (e_from e) in
      case re_search p_address from_field of
        Some m \<Rightarrow> group0 from_field m
      | None \<Rightarrow> if from_field \<noteq> [] then take 50 from_field else str ''unknown'')"

text \<open>
  The loop of \<^verbatim>\<open>sample_with_global_sender_cap\<close> over the shuffled list: \<open>selected\<close> and
  the sender counts are the loop's state.  The counts are a \<^verbatim>\<open>defaultdict(int)\<close>, a total
  map with 0 for a sender not seen.
\<close>

fun sample_loop :: "email list \<Rightarrow> int \<Rightarrow> int \<Rightarrow> email list \<Rightarrow> (pystr \<Rightarrow> int)
    \<Rightarrow> email list \<times> (pystr \<Rightarrow> int)" where
  "sample_loop [] target_count max_per_sender selected counts = (selected, counts)"
| "sample_loop (e # es) target_count max_per_sender selected counts =
     (if int (length selected) \<ge> target_count then (selected, counts)
      else if counts (extract_sender e) < max_per_sender
           then sample_loop es target_count max_per_sender (selected @ [e])
                  (counts (extract_sender e := counts (extract_sender e) + 1))
           else sample_loop es target_count max_per_sender selected counts)"

text \<open>
  \<^verbatim>\<open>random.shuffle\<close> is the parameter \<open>shuffle\<close>: from the state of the generator and a
  list to the shuffled list and the next state.  The generator itself is not part of
  the program.
\<close>

definition sample_with_global_sender_cap ::
    "('g \<Rightarrow> email list \<Rightarrow> email list \<times> 'g) \<Rightarrow> email list \<Rightarrow> int \<Rightarrow> int \<Rightarrow> (pystr \<Rightarrow> int) \<Rightarrow> 'g
     \<Rightarrow> email list \<times> (pystr \<Rightarrow> int) \<times> 'g" where
  "sample_with_global_sender_cap shuffle emails target_count max_per_sender counts g =
     (case shuffle g emails of (shuffled, g') \<Rightarrow>
        (case sample_loop shuffled target_count max_per_sender [] counts of
           (selected, counts') \<Rightarrow> (selected, counts', g')))"

text \<open>The loop over \<^verbatim>\<open>targets.items()\<close>; its state is (selected, shortfall, counts, generator).\<close>

fun bucket_loop :: "('g \<Rightarrow> email list \<Rightarrow> email list \<times> 'g) \<Rightarrow> email list \<Rightarrow> (string \<times> int) list
    \<Rightarrow> email list \<Rightarrow> int \<Rightarrow> (pystr \<Rightarrow> int) \<Rightarrow> 'g
    \<Rightarrow> email list \<times> int \<times> (pystr \<Rightarrow> int) \<times> 'g" where
  "bucket_loop shuffle emails [] selected shortfall counts g = (selected, shortfall, counts, g)"
| "bucket_loop shuffle emails ((bucket, target) # ts) selected shortfall counts g =
     (let bucket_emails = filter (\<lambda>e. get_message_bucket e = bucket) emails in
      case sample_with_global_sender_cap shuffle bucket_emails target MAX_PER_SENDER counts g of
        (sampled, counts', g') \<Rightarrow>
          (let bucket_shortfall = target - int (length sampled) in
           bucket_loop shuffle emails ts (selected @ sampled)
             (if bucket_shortfall > 0 then shortfall + bucket_shortfall else shortfall)
             counts' g'))"

text \<open>The arguments \<open>category\<close> and \<open>total_target\<close> are only printed or not used at all.\<close>

definition select_emails_with_global_cap ::
    "('g \<Rightarrow> email list \<Rightarrow> email list \<times> 'g) \<Rightarrow> email list \<Rightarrow> string \<Rightarrow> (string \<times> int) list
     \<Rightarrow> (pystr \<Rightarrow> int) \<Rightarrow> int \<Rightarrow> 'g \<Rightarrow> email list \<times> (pystr \<Rightarrow> int) \<times> 'g" where
  "select_emails_with_global_cap shuffle emails category targets counts total_target g =
     (case bucket_loop shuffle emails targets [] 0 counts g of
        (selected, shortfall, counts1, g1) \<Rightarrow>
          if shortfall > 0
          then (let selected_ids = set (map thread_id selected);
                    remaining_1msg = filter (\<lambda>e. get_message_bucket e = ''1-msg''
                                              \<and> thread_id e \<notin> selected_ids) emails
                in case sample_with_global_sender_cap shuffle remaining_1msg shortfall
                          MAX_PER_SENDER counts1 g1 of
                     (additional, counts2, g2) \<Rightarrow> (selected @ additional, counts2, g2))
          else (selected, counts1, g1))"

text \<open>
  \<^verbatim>\<open>main\<close> from the filtered pool on: \<^verbatim>\<open>random.seed(42)\<close> (the parameter \<open>seed\<close> gives the
  state of the generator), the split by category, the two selections over one count map,
  and the combined list.
\<close>

definition main_selection ::
    "('g \<Rightarrow> email list \<Rightarrow> email list \<times> 'g) \<Rightarrow> (int \<Rightarrow> 'g) \<Rightarrow> email list \<Rightarrow> email list" where
  "main_selection shuffle seed filtered_2025 =
     (let g0 = seed 42;
          work_emails = filter (\<lambda>e. personal_or_work e = str ''work'') filtered_2025;
          personal_emails = filter (\<lambda>e. personal_or_work e = str ''personal'') filtered_2025
      in case select_emails_with_global_cap shuffle work_emails ''work'' WORK_TARGETS
                (\<lambda>sender. 0) 200 g0 of
           (selected_work, counts1, g1) \<Rightarrow>
             (case select_emails_with_global_cap shuffle personal_emails ''personal''
                     PERSONAL_TARGETS counts1 150 g1 of
                (selected_personal, counts2, g2) \<Rightarrow> selected_work @ selected_personal))"




text \<open>
  \<open>sent k es\<close>: how many records of \<open>es\<close> have the sender key \<open>k\<close>.  \<open>capped m counts acc\<close>:
  the count map covers the records selected so far and stays within the cap.
\<close>

definition sent :: "pystr \<Rightarrow> email list \<Rightarrow> int" where
  "sent k es = int (length (filter (\<lambda>e. extract_sender e = k) es))"


definition capped :: "int \<Rightarrow> (pystr \<Rightarrow> int) \<Rightarrow> email list \<Rightarrow> bool" where
  "capped m counts acc = (\<forall>k. sent k acc \<le> counts k \<and> counts k \<le> m)"


section \<open>\<^verbatim>\<open>prepare_data.py\<close>: the record merger\<close>

text \<open>
  A cell of a table read by \<^verbatim>\<open>pandas.read_csv\<close> is a text, a number, or NaN, the float that
  stands for an empty cell.  The numbers of the tables are identifiers and counts; they are
  integers here.  \<open>truthy\<close> is the truth value that \<^verbatim>\<open>if\<close> and \<^verbatim>\<open>or\<close> give a cell: the empty
  text and 0 are false, NaN is true.
\<close>

datatype cell = Text pystr | Num int | NaN

fun truthy :: "cell \<Rightarrow> bool" where
  "truthy (Text s) = (s \<noteq> [])"
| "truthy (Num n) = (n \<noteq> 0)"
| "truthy NaN = True"

text \<open>The exceptions that a round of the loop can raise.\<close>

datatype error = AttributeError | ValueError | TypeError

text \<open>
  A row of the metadata table.  The columns \<^verbatim>\<open>thread_id\<close>, \<^verbatim>\<open>num_memories\<close> and \<^verbatim>\<open>headlines\<close>
  are read with \<^verbatim>\<open>row[...]\<close>; the others with \<^verbatim>\<open>row.get\<close>, and are \<open>None\<close> when the table
  has no such column.
\<close>

record row =
  r_thread_id :: cell
  r_num_memories :: cell
  r_headlines :: cell
  r_topics :: "cell option"
  r_people :: "cell option"
  r_anchors :: "cell option"
  r_email_preview :: "cell option"
  r_personal_or_work :: "cell option"

text \<open>\<^verbatim>\<open>row.get(k, d) or d\<close>: the default \<open>d\<close> for a missing column and for a cell that is false.\<close>

definition get_or :: "cell option \<Rightarrow> pystr \<Rightarrow> cell" where
  "get_or c d = (case c of None \<Rightarrow> Text d | Some v \<Rightarrow> if truthy v then v else Text d)"

text \<open>
  \<^verbatim>\<open>content_map.get(thread_id, "")\<close>.  NaN is not equal to NaN, so the key NaN is never
  found.
\<close>

definition lookup :: "(cell \<rightharpoonup> cell) \<Rightarrow> cell \<Rightarrow> cell" where
  "lookup content_map k =
     (case (if k = NaN then None else content_map k) of None \<Rightarrow> Text [] | Some c \<Rightarrow> c)"

text \<open>
  \<^verbatim>\<open>int(row["num_memories"])\<close>: NaN raises \<^verbatim>\<open>ValueError\<close>.  The parameter \<open>int_of_text\<close> stands
  for \<^verbatim>\<open>int\<close> on a text, \<open>None\<close> when it raises.
\<close>

definition to_int :: "(pystr \<Rightarrow> int option) \<Rightarrow> cell \<Rightarrow> error + int" where
  "to_int int_of_text c =
     (case c of
        Num n \<Rightarrow> Inr n
      | NaN \<Rightarrow> Inl ValueError
      | Text t \<Rightarrow> (case int_of_text t of None \<Rightarrow> Inl ValueError | Some n \<Rightarrow> Inr n))"

text \<open>
  \<^verbatim>\<open>len(headlines_list)\<close>.  The parameter \<open>json_loads\<close> stands for \<^verbatim>\<open>json.loads\<close> on a text:
  \<open>None\<close> when it raises, else a value that has a length or has none.  The list is empty for
  NaN and when \<^verbatim>\<open>json.loads\<close> raises (a number is not a text: it raises); \<^verbatim>\<open>len\<close> of a value
  without a length raises \<^verbatim>\<open>TypeError\<close>, outside the \<^verbatim>\<open>try\<close>.
\<close>

datatype loaded = Sized nat | Unsized

definition headlines_len :: "(pystr \<Rightarrow> loaded option) \<Rightarrow> cell \<Rightarrow> error + nat" where
  "headlines_len json_loads h =
     (case h of
        NaN \<Rightarrow> Inr 0
      | Num n \<Rightarrow> Inr 0
      | Text t \<Rightarrow> (case json_loads t of
                     None \<Rightarrow> Inr 0
                   | Some (Sized n) \<Rightarrow> Inr n
                   | Some Unsized \<Rightarrow> Inl TypeError))"

text \<open>The four variables of the header scan.\<close>

record headers =
  from_line :: pystr
  to_line :: pystr
  subject_line :: pystr
  time_line :: pystr

definition no_headers :: headers where
  "no_headers = \<lparr>from_line = [], to_line = [], subject_line = [], time_line = []\<rparr>"

text \<open>\<^verbatim>\<open>line.replace(label, "").strip()\<close>\<close>

definition header_value :: "string \<Rightarrow> pystr \<Rightarrow> pystr" where
  "header_value label line = strip (str_replace (str label) [] line)"

text \<open>The body of the loop over the first lines, with its \<^verbatim>\<open>if\<close>/\<^verbatim>\<open>elif\<close> chain.\<close>

definition scan_line :: "headers \<Rightarrow> pystr \<Rightarrow> headers" where
  "scan_line h raw =
     (let line = strip raw in
      if prefix (str ''From:'') line \<and> from_line h = []
        then h\<lparr>from_line := header_value ''From:'' line\<rparr>
      else if prefix (str ''To:'') line \<and> to_line h = []
        then h\<lparr>to_line := header_value ''To:'' line\<rparr>
      else if prefix (str ''Subject:'') line \<and> subject_line h = []
        then h\<lparr>subject_line := header_value ''Subject:'' line\<rparr>
      else if prefix (str ''Time:'') line \<and> time_line h = []
        then h\<lparr>time_line := header_value ''Time:'' line\<rparr>
      else h)"

definition parse_headers :: "pystr \<Rightarrow> headers" where
  "parse_headers content_for_parsing =
     foldl scan_line no_headers (take 20 (split_on 10 content_for_parsing))"

text \<open>The dictionary that a round of the loop appends.\<close>

record merged =
  m_thread_id :: cell
  m_num_memories :: int
  m_num_headlines :: nat
  m_headlines :: cell
  m_topics :: cell
  m_people :: cell
  m_anchors :: cell
  m_full_content :: cell
  m_email_preview :: cell
  m_personal_or_work :: cell
  m_from :: pystr
  m_to :: pystr
  m_subject :: pystr
  m_time :: pystr

text \<open>
  One round of the loop over the rows.  \<^verbatim>\<open>content_for_parsing.split\<close> raises
  \<^verbatim>\<open>AttributeError\<close> when the content is not a text; the conversions of the dictionary
  come after it, \<^verbatim>\<open>int\<close> before \<^verbatim>\<open>len\<close>.
\<close>

definition merge_row ::
    "(pystr \<Rightarrow> loaded option) \<Rightarrow> (pystr \<Rightarrow> int option) \<Rightarrow> (cell \<rightharpoonup> cell) \<Rightarrow> row \<Rightarrow> error + merged" where
  "merge_row json_loads int_of_text content_map r =
     (let full_content = lookup content_map (r_thread_id r);
          content_for_parsing = (if truthy full_content then full_content
                                 else get_or (r_email_preview r) [])
      in case content_for_parsing of
           Num n \<Rightarrow> Inl AttributeError
         | NaN \<Rightarrow> Inl AttributeError
         | Text c \<Rightarrow>
             (let h = parse_headers c in
              case to_int int_of_text (r_num_memories r) of
                Inl err \<Rightarrow> Inl err
              | Inr num \<Rightarrow>
                  (case headlines_len json_loads (r_headlines r) of
                     Inl err \<Rightarrow> Inl err
                   | Inr len \<Rightarrow>
                       Inr \<lparr>m_thread_id = r_thread_id r,
                            m_num_memories = num,
                            m_num_headlines = len,
                            m_headlines = r_headlines r,
                            m_topics = get_or (r_topics r) [],
                            m_people = get_or (r_people r) [],
                            m_anchors = get_or (r_anchors r) [],
                            m_full_content = full_content,
                            m_email_preview = get_or (r_email_preview r) [],
                            m_personal_or_work = get_or (r_personal_or_work r) (str ''unknown''),
                            m_from = from_line h,
                            m_to = to_line h,
                            m_subject = subject_line h,
                            m_time = time_line h\<rparr>)))"

text \<open>The loop over the rows: the first exception ends it.\<close>

fun merge_rows ::
    "(pystr \<Rightarrow> loaded option) \<Rightarrow> (pystr \<Rightarrow> int option) \<Rightarrow> (cell \<rightharpoonup> cell) \<Rightarrow> row list
     \<Rightarrow> error + merged list" where
  "merge_rows json_loads int_of_text content_map [] = Inr []"
| "merge_rows json_loads int_of_text content_map (r # rs) =
     (case merge_row json_loads int_of_text content_map r of
        Inl err \<Rightarrow> Inl err
      | Inr email \<Rightarrow>
          (case merge_rows json_loads int_of_text content_map rs of
             Inl err \<Rightarrow> Inl err
           | Inr emails \<Rightarrow> Inr (email # emails)))"

section \<open>\<^verbatim>\<open>clean_emails.py\<close>: the cleaning pipeline\<close>

text \<open>
  Each cleaning function is a sequence of assignments \<^verbatim>\<open>text = ...\<close>.  A rule is one such
  assignment: \<^verbatim>\<open>re.sub\<close>, \<^verbatim>\<open>str.replace\<close>, the loop that deletes every match of a
  pattern but the first, or \<^verbatim>\<open>text.strip()\<close>.
\<close>

datatype rule = Sub re repl | Replace pystr pystr | KeepFirst re | Strip

text \<open>\<^verbatim>\<open>text[:match.start()] + text[match.end():]\<close>\<close>

definition cut :: "pystr \<Rightarrow> span \<Rightarrow> pystr" where
  "cut t m = (case m of (a, b, g) \<Rightarrow> take a t @ drop b t)"

text \<open>
  \<^verbatim>\<open>matches = list(re.finditer(p, text))\<close>, and when there is more than one match,
  \<^verbatim>\<open>for match in reversed(matches[1:])\<close> the cut above.
\<close>

definition keep_first :: "re \<Rightarrow> pystr \<Rightarrow> pystr" where
  "keep_first r t =
     (let ms = re_finditer r t in
      if length ms > 1 then foldl cut t (rev (tl ms)) else t)"

fun apply_rule :: "rule \<Rightarrow> pystr \<Rightarrow> pystr" where
  "apply_rule (Sub r rp) t = re_sub r rp t"
| "apply_rule (Replace old new) t = str_replace old new t"
| "apply_rule (KeepFirst r) t = keep_first r t"
| "apply_rule Strip t = strip t"

definition apply_rules :: "rule list \<Rightarrow> pystr \<Rightarrow> pystr" where
  "apply_rules rules t = foldl (\<lambda>t r. apply_rule r t) t rules"

subsection \<open>Pieces that many patterns share\<close>

definition sp :: re where "sp = cls [Space]"
definition digit :: re where "digit = cls [Digit]"
definition nl :: re where "nl = cls [Is 10]"
definition nonspace :: re where "nonspace = ncls [Space]"

text \<open>\<^verbatim>\<open>[^\s)\]]\<close>, \<^verbatim>\<open>[a-zA-Z0-9-]\<close>, \<^verbatim>\<open>[a-zA-Z0-9.-]\<close>, \<^verbatim>\<open>[a-f0-9]\<close>, \<^verbatim>\<open>[^)]\<close>, \<^verbatim>\<open>[^\]]\<close>, \<^verbatim>\<open>[^>]\<close>\<close>

definition url_ch :: re where "url_ch = ncls [Space, ch CHR '')'', ch CHR '']'']"
definition host_ch :: re where "host_ch = cls [az, AZ, d09, ch CHR ''-'']"
definition dom_ch :: re where "dom_ch = cls [az, AZ, d09, ch CHR ''.'', ch CHR ''-'']"
definition hex_ch :: re where "hex_ch = cls [Btw 97 102, d09]"
definition not_rparen :: re where "not_rparen = ncls [ch CHR '')'']"
definition not_rbracket :: re where "not_rbracket = ncls [ch CHR '']'']"
definition not_gt :: re where "not_gt = ncls [ch CHR ''>'']"

text \<open>\<^verbatim>\<open>https?://\<close>\<close>

definition http_s :: re where
  "http_s = cat [lit ''http'', opt (lit ''s''), lit ''://'']"

text \<open>A tracking host that is deleted with the rest of its URL: \<^verbatim>\<open>PREFIX[^\s)\]]+\<close>.\<close>

definition url_of :: "re list \<Rightarrow> re" where
  "url_of prefix_parts = cat (prefix_parts @ [plus_re url_ch])"

subsection \<open>\<^verbatim>\<open>clean_tracking_urls\<close>\<close>

definition tracking_rules :: "rule list" where
  \<open>tracking_rules =
   [Sub (cat [lit ''https://urldefense.com/v3/__'', Grp (plus_re (ncls [ch CHR ''_''])), lit ''__'',
              star (ncls [ch CHR '')'', ch CHR ''}'', Space])]) Group1
      \<comment> \<open>https://urldefense\.com/v3/__([^_]+)__[^)}\s]*\<close>,
    Sub (url_of [lit ''https://'', plus_re host_ch, lit ''.'',
                 Alt (cat [lit ''na'', star digit]) (cat [lit ''eu'', star digit]),
                 lit ''.hubspotlinks.com/'']) (Txt [])
      \<comment> \<open>https://[a-zA-Z0-9-]+\.(?:na\d*|eu\d*)\.hubspotlinks\.com/[^\s)\]]+\<close>,
    Sub (url_of [http_s, lit ''track.editorialmanager.com/'']) (Txt [])
      \<comment> \<open>https?://track\.editorialmanager\.com/[^\s)\]]+\<close>,
    Sub (cat [lit ''!['', lazy_star dot, lit ''](https://'', star not_rparen, lit ''hubspot'',
              star not_rparen, lit '')'']) (Txt [])
      \<comment> \<open>!\[.*?\]\(https://[^)]*hubspot[^)]*\)\<close>,
    Sub (cat [lit ''![](http'', plus_re not_rparen, lit '')'']) (Txt [])
      \<comment> \<open>!\[\]\(http[^)]+\)\<close>,
    Sub (url_of [lit ''https://hs-'', plus_re digit, lit ''.s.hubspotemail.net/'']) (Txt [])
      \<comment> \<open>https://hs-\d+\.s\.hubspotemail\.net/[^\s)\]]+\<close>,
    Sub (url_of [lit ''https://hs-'', plus_re digit, lit ''.f.hubspotemail.net/'']) (Txt [])
      \<comment> \<open>https://hs-\d+\.f\.hubspotemail\.net/[^\s)\]]+\<close>,
    Sub (url_of [lit ''https://click.enews.united.com/'']) (Txt [])
      \<comment> \<open>https://click\.enews\.united\.com/[^\s)\]]+\<close>,
    Sub (url_of [lit ''https://click.o.delta.com/'']) (Txt [])
      \<comment> \<open>https://click\.o\.delta\.com/[^\s)\]]+\<close>,
    Sub (url_of [lit ''https://view.o.delta.com/'']) (Txt [])
      \<comment> \<open>https://view\.o\.delta\.com/[^\s)\]]+\<close>,
    Sub (cat [lit ''https://click.'', plus_re dom_ch, lit ''/'', star url_ch, lit ''?qs='',
              atleast 40 hex_ch, star url_ch]) (Txt [])
      \<comment> \<open>https://click\.[a-zA-Z0-9.-]+/[^\s)\]]*\?qs=[a-f0-9]{40,}[^\s)\]]*\<close>,
    Sub (cat [lit ''https://view.'', plus_re dom_ch, lit ''/'', star url_ch, lit ''?qs='',
              atleast 40 hex_ch, star url_ch]) (Txt [])
      \<comment> \<open>https://view\.[a-zA-Z0-9.-]+/[^\s)\]]*\?qs=[a-f0-9]{40,}[^\s)\]]*\<close>,
    Sub (cat [http_s, plus_re nonspace, atleast 50 hex_ch, star nonspace]) (Txt [])
      \<comment> \<open>https?://[^\s]+[a-f0-9]{50,}[^\s]*\<close>,
    Sub (url_of [http_s, star dom_ch, lit ''sendgrid'']) (Txt [])
      \<comment> \<open>https?://[a-zA-Z0-9.-]*sendgrid[^\s)\]]+\<close>,
    Sub (url_of [http_s, star dom_ch, lit ''mailchimp'']) (Txt [])
      \<comment> \<open>https?://[a-zA-Z0-9.-]*mailchimp[^\s)\]]+\<close>,
    Sub (url_of [http_s, star dom_ch, lit ''campaign-archive'']) (Txt [])
      \<comment> \<open>https?://[a-zA-Z0-9.-]*campaign-archive[^\s)\]]+\<close>,
    Sub (url_of [http_s, lit ''links.loyalty.email.ikea.com/'']) (Txt [])
      \<comment> \<open>https?://links\.loyalty\.email\.ikea\.com/[^\s)\]]+\<close>,
    Sub (cat [http_s, star dom_ch, lit ''.email.'', plus_re dom_ch, lit ''/'', star url_ch,
              atleast 30 (cls [az, AZ, d09, ch CHR ''_'', ch CHR ''-'']), star url_ch]) (Txt [])
      \<comment> \<open>https?://[a-zA-Z0-9.-]*\.email\.[a-zA-Z0-9.-]+/[^\s)\]]*[a-zA-Z0-9_-]{30,}[^\s)\]]*\<close>,
    Sub (cat [http_s, plus_re nonspace, lit ''/'',
              atleast 40 (cls [az, AZ, d09, ch CHR ''_'', ch CHR ''-'']), lit ''~'', star nonspace])
        (Txt [])
      \<comment> \<open>https?://[^\s]+/[a-zA-Z0-9_-]{40,}[~][^\s]*\<close>,
    Sub (url_of [http_s, lit ''track.wordsmarts.com/'']) (Txt [])
      \<comment> \<open>https?://track\.wordsmarts\.com/[^\s)\]]+\<close>,
    Sub (url_of [http_s, lit ''track.recommendedreads.com/'']) (Txt [])
      \<comment> \<open>https?://track\.recommendedreads\.com/[^\s)\]]+\<close>,
    Sub (url_of [http_s, lit ''click.mlsend.com/'']) (Txt [])
      \<comment> \<open>https?://click\.mlsend\.com/[^\s)\]]+\<close>,
    Sub (url_of [http_s, lit ''click.hyatt.com/'']) (Txt [])
      \<comment> \<open>https?://click\.hyatt\.com/[^\s)\]]+\<close>,
    Sub (url_of [http_s, lit ''mailchi.mp/'']) (Txt [])
      \<comment> \<open>https?://mailchi\.mp/[^\s)\]]+\<close>,
    Sub (url_of [http_s, plus_re dom_ch, lit ''.list-manage.com/'']) (Txt [])
      \<comment> \<open>https?://[a-zA-Z0-9.-]+\.list-manage\.com/[^\s)\]]+\<close>,
    Sub (url_of [http_s, lit ''click.'', plus_re dom_ch, lit ''.com/'']) (Txt [])
      \<comment> \<open>https?://click\.[a-zA-Z0-9.-]+\.com/[^\s)\]]+\<close>,
    Sub (url_of [http_s, lit ''track.'', plus_re dom_ch, lit ''.com/'']) (Txt [])
      \<comment> \<open>https?://track\.[a-zA-Z0-9.-]+\.com/[^\s)\]]+\<close>,
    Sub (url_of [http_s, lit ''ctrk.'', plus_re dom_ch, lit ''.com/'']) (Txt [])
      \<comment> \<open>https?://ctrk\.[a-zA-Z0-9.-]+\.com/[^\s)\]]+\<close>,
    Sub (cat [Grp (cat [lit ''https://www.linkedin.com/comm/messaging/thread/'',
                        plus_re (ncls [ch CHR ''?'', Space])]),
              lit ''?'', plus_re url_ch]) Group1
      \<comment> \<open>(https://www\.linkedin\.com/comm/messaging/thread/[^?\s]+)\?[^\s)\]]+\<close>,
    Sub (cat [Grp (cat [lit ''https://www.linkedin.com/'',
                        Rep True 1 (Some 50) (ncls [ch CHR ''?'', Space])]),
              lit ''?'', atleast 80 url_ch]) Group1
      \<comment> \<open>(https://www\.linkedin\.com/[^?\s]{1,50})\?[^\s)\]]{80,}\<close>,
    Sub (url_of [lit ''https://nam'', plus_re digit, lit ''.safelinks.protection.outlook.com/''])
        (Txt (str ''[link]''))
      \<comment> \<open>https://nam\d+\.safelinks\.protection\.outlook\.com/[^\s)\]]+\<close>]\<close>

definition clean_tracking_urls :: "pystr \<Rightarrow> pystr" where
  "clean_tracking_urls text = apply_rules tracking_rules text"

subsection \<open>\<^verbatim>\<open>clean_html_tags\<close>\<close>

text \<open>The tag names of the third rule, each under IGNORECASE.\<close>

definition tag_names :: re where
  "tag_names = alts (map ilit [''div'', ''span'', ''p'', ''br'', ''table'', ''tr'', ''td'', ''th'',
     ''tbody'', ''thead'', ''b'', ''i'', ''strong'', ''em'', ''u'', ''font'', ''center'', ''style'',
     ''script''])"

definition html_rules :: "rule list" where
  \<open>html_rules =
   [Sub (cat [ilit ''<a'', plus_re sp, star not_gt, lit ''>'', Grp (star (ncls [ch CHR ''<''])),
              ilit ''</a>'']) Group1
      \<comment> \<open><a\s+[^>]*>([^<]*)</a>   IGNORECASE\<close>,
    Sub (cat [ilit ''<img'', plus_re sp, star not_gt, opt (lit ''/''), lit ''>'']) (Txt [])
      \<comment> \<open><img\s+[^>]*/?>   IGNORECASE\<close>,
    Sub (cat [lit ''<'', opt (lit ''/''), tag_names, star not_gt, opt (lit ''/''), lit ''>''])
        (Txt [])
      \<comment> \<open></?(?:div|span|p|br|table|tr|td|th|tbody|thead|b|i|strong|em|u|font|center|style|script)[^>]*/?>   IGNORECASE\<close>,
    Sub (cat [lit ''<'', plus_re not_gt, lit ''>'']) (Txt [])
      \<comment> \<open><[^>]+>\<close>,
    Sub (lit ''&#8209;'') (Txt (str ''-'')),
    Sub (lit ''&#8211;'') (Txt [8211]),
    Sub (lit ''&#8212;'') (Txt [8212]),
    Sub (lit ''&#8217;'') (Txt [39]),
    Sub (lit ''&#8220;'') (Txt [34]),
    Sub (lit ''&#8221;'') (Txt [34]),
    Sub (lit ''&#8230;'') (Txt (str ''...'')),
    Sub (cat [lit ''&#'', plus_re digit, lit '';'']) (Txt [])
      \<comment> \<open>&#\d+;\<close>]\<close>

definition clean_html_tags :: "pystr \<Rightarrow> pystr" where
  "clean_html_tags text = apply_rules html_rules text"

subsection \<open>\<^verbatim>\<open>remove_attachment_metadata\<close>\<close>

text \<open>\<^verbatim>\<open>NAME:\s*[^\n]+\n\<close>, one line of a MIME header block.\<close>

definition header_line :: "string \<Rightarrow> re" where
  "header_line name = cat [lit name, star sp, plus_re dot, nl]"

definition attachment_rules :: "rule list" where
  \<open>attachment_rules =
   [Sub (cat [header_line ''Content-Type:'', header_line ''Content-Disposition:'',
              opt (header_line ''Content-Transfer-Encoding:''),
              opt (header_line ''Content-ID:''),
              opt (header_line ''X-Attachment-Id:'')])
        (Txt (str ''[Attachment]'' @ [10]))
      \<comment> \<open>Content-Type:\s*[^\n]+\nContent-Disposition:\s*[^\n]+\n(?:Content-Transfer-Encoding:\s*[^\n]+\n)?(?:Content-ID:\s*[^\n]+\n)?(?:X-Attachment-Id:\s*[^\n]+\n)?\<close>,
    Sub (cat [lit ''X-Attachment-Id:'', star sp, plus_re dot, opt nl]) (Txt [])
      \<comment> \<open>X-Attachment-Id:\s*[^\n]+\n?\<close>,
    Sub (cat [lit ''Content-ID:'', star sp, lit ''<'', plus_re not_gt, lit ''>'', opt nl]) (Txt [])
      \<comment> \<open>Content-ID:\s*<[^>]+>\n?\<close>]\<close>

definition remove_attachment_metadata :: "pystr \<Rightarrow> pystr" where
  "remove_attachment_metadata text = apply_rules attachment_rules text"

subsection \<open>\<^verbatim>\<open>clean_markdown_artifacts\<close>\<close>

definition markdown_rules :: "rule list" where
  \<open>markdown_rules =
   [Sub (cat [lit ''!['', lazy_star dot, lit ''](''  , plus_re not_rparen, lit '')'']) (Txt [])
      \<comment> \<open>!\[.*?\]\([^)]+\)\<close>,
    Sub (cat [lit ''['', Grp (plus_re not_rbracket), lit ''](''  , atleast 80 not_rparen, lit '')''])
        Group1
      \<comment> \<open>\[([^\]]+)\]\([^)]{80,}\)\<close>,
    Sub (lit ''[link]'') (Txt [])
      \<comment> \<open>\[link\]\<close>,
    Sub (cat [lit ''['', star sp, lit ''](''  , plus_re not_rparen, lit '')'']) (Txt [])
      \<comment> \<open>\[\s*\]\([^)]+\)\<close>,
    Sub (cat [lit ''('', star sp, lit '')'']) (Txt [])
      \<comment> \<open>\(\s*\)\<close>,
    Replace ([92] @ str ''--'') (str ''--''),
    Replace ([92] @ str ''['') (str ''[''),
    Replace ([92] @ str '']'') (str '']''),
    Sub (cat [Bol, lit ''##'', plus_re sp]) (Txt [])
      \<comment> \<open>^##\s+   MULTILINE\<close>,
    Sub (cat [lit ''[image: '', plus_re not_rbracket, lit '']'']) (Txt (str ''[Image]''))
      \<comment> \<open>\[image: [^\]]+\]\<close>,
    Sub (cat [lit ''!['', star not_rbracket, lit ''](cid:'', plus_re not_rparen, lit '')''])
        (Txt (str ''[Image]''))
      \<comment> \<open>!\[[^\]]*\]\(cid:[^)]+\)\<close>,
    Sub (cat [lit ''[cid:'', plus_re not_rbracket, lit '']'']) (Txt (str ''[Image]''))
      \<comment> \<open>\[cid:[^\]]+\]\<close>]\<close>

definition clean_markdown_artifacts :: "pystr \<Rightarrow> pystr" where
  "clean_markdown_artifacts text = apply_rules markdown_rules text"

subsection \<open>\<^verbatim>\<open>remove_duplicate_content\<close>\<close>

text \<open>The separator \<^verbatim>\<open>\n---\n\<close>.\<close>

definition p_separator :: re where
  "p_separator = cat [nl, lit ''---'', nl]"

definition has_message_header :: "pystr \<Rightarrow> bool" where
  "has_message_header part = (re_search p_message (strip part) \<noteq> None)"

definition remove_duplicate_content :: "pystr \<Rightarrow> pystr" where
  "remove_duplicate_content text =
     (let parts = re_split p_separator text in
      if length parts \<le> 1 then text
      else (let message_parts = filter has_message_header parts in
            if message_parts \<noteq> [] then join [10, 10] message_parts
            else strip (hd parts)))"

subsection \<open>\<^verbatim>\<open>clean_boilerplate\<close>\<close>

text \<open>The look-ahead \<^verbatim>\<open>(?=\n\n|\Z)\<close>, and a footer line \<^verbatim>\<open>.*PHRASE.*\n?\<close> under IGNORECASE.\<close>

definition until_blank :: re where
  "until_blank = Look (Alt (cat [nl, nl]) Eos)"

definition footer_line :: "string \<Rightarrow> re" where
  "footer_line phrase = cat [star dot, ilit phrase, star dot, opt nl]"

definition entity :: "string \<Rightarrow> pystr \<Rightarrow> rule" where
  "entity name new = Replace (str name) new"

definition boilerplate_rules :: "rule list" where
  \<open>boilerplate_rules =
   [KeepFirst (cat [ilit ''The information contained in this electronic message may be legally privileged'',
                    lazy_star anychar,
                    Look (alts [cat [nl, nl], cat [nl, atleast 3 (cls [ch CHR ''*''])], Eos])])
      \<comment> \<open>The information contained in this electronic message may be legally privileged.*?(?=\n\n|\n\*{3,}|\Z)   DOTALL | IGNORECASE\<close>,
    Sub (cat [nl, atleast 3 (cls [ch CHR ''*'']), nl]) (Txt [10])
      \<comment> \<open>\n\*{3,}\n\<close>,
    KeepFirst (ilit ''Please consider the environment before printing this e-mail'')
      \<comment> \<open>Please consider the environment before printing this e-mail   IGNORECASE\<close>,
    Sub (cat [opt (lit ''_''), ilit ''Notice of confidentiality:'', lazy_star anychar, until_blank])
        (Txt [])
      \<comment> \<open>_?Notice of confidentiality:.*?(?=\n\n|\Z)   DOTALL | IGNORECASE\<close>,
    Sub (cat [ilit ''In compliance with data protection regulations'', lazy_star anychar,
              until_blank]) (Txt [])
      \<comment> \<open>In compliance with data protection regulations.*?(?=\n\n|\Z)   DOTALL | IGNORECASE\<close>,
    Sub (footer_line ''Unsubscribe'') (Txt [])
      \<comment> \<open>.*Unsubscribe.*\n?   IGNORECASE\<close>,
    Sub (footer_line ''Manage preferences'') (Txt [])
      \<comment> \<open>.*Manage preferences.*\n?   IGNORECASE\<close>,
    Sub (footer_line ''Email preferences'') (Txt [])
      \<comment> \<open>.*Email preferences.*\n?   IGNORECASE\<close>,
    Sub (footer_line ''Privacy policy'') (Txt [])
      \<comment> \<open>.*Privacy policy.*\n?   IGNORECASE\<close>,
    Sub (cat [star dot, ilit ''Contact us'', star dot, lit ''|'', star dot, opt nl]) (Txt [])
      \<comment> \<open>.*Contact us.*\|.*\n?   IGNORECASE\<close>,
    Sub (footer_line ''View as a web page'') (Txt [])
      \<comment> \<open>.*View as a web page.*\n?   IGNORECASE\<close>,
    Sub (cat [star dot, ilit ''Download the latest'', star dot, ilit ''app'', star dot, opt nl])
        (Txt [])
      \<comment> \<open>.*Download the latest.*app.*\n?   IGNORECASE\<close>,
    Sub (cat [lit ''Forbes Councils,'', star sp, plus_re digit, plus_re dot, opt nl]) (Txt [])
      \<comment> \<open>Forbes Councils,\s*\d+[^\n]+\n?\<close>,
    Sub (cat [lit ''(c)'', star sp, Rep True 4 (Some 4) digit, plus_re sp, lit ''United Airlines'',
              lazy_star anychar, until_blank]) (Txt [])
      \<comment> \<open>\(c\)\s*\d{4}\s+United Airlines.*?(?=\n\n|\Z)   DOTALL\<close>,
    Sub (cat [lit ''United Airlines'', opt (lit '',''), plus_re sp, lit ''Inc.'', lazy_star anychar,
              until_blank]) (Txt [])
      \<comment> \<open>United Airlines,?\s+Inc\..*?(?=\n\n|\Z)   DOTALL\<close>,
    Sub (cat [lit ''We do not monitor electronic replies'', lazy_star dot, nl]) (Txt [])
      \<comment> \<open>We do not monitor electronic replies.*?\n\<close>,
    Sub (cat [lit ''(mailto:'', plus_re not_rparen, lit '')'']) (Txt [])
      \<comment> \<open>\(mailto:[^)]+\)\<close>,
    Sub (cat [lit ''([link]'', star sp, lit '')'']) (Txt [])
      \<comment> \<open>\(\[link\]\s*\)\<close>,
    Sub (cat [lit ''[link]'', star sp, lit ''([link]'', star sp, lit '')'']) (Txt [])
      \<comment> \<open>\[link\]\s*\(\[link\]\s*\)\<close>,
    Sub (cat [lit ''[link]'', star sp, nl]) (Txt [10])
      \<comment> \<open>\[link\]\s*\n\<close>,
    Sub (lit ''[link]'') (Txt [])
      \<comment> \<open>\[link\]\<close>,
    Sub (lit ''[image]'') (Txt [])
      \<comment> \<open>\[image\]\<close>,
    Sub (lit ''[Image]'') (Txt [])
      \<comment> \<open>\[Image\]\<close>,
    Sub (cat [nl, star sp, atleast 3 (cls [ch CHR ''-'', ch CHR ''*'']), star sp, nl]) (Txt [10, 10])
      \<comment> \<open>\n\s*[-*]{3,}\s*\n\<close>,
    Sub (cat [nl, star sp, lit ''* * *'', star sp, nl]) (Txt [10, 10])
      \<comment> \<open>\n\s*\* \* \*\s*\n\<close>,
    entity ''&reg;'' [174],
    entity ''&nbsp;'' (str '' ''),
    entity ''&rsaquo;'' [8250],
    entity ''&lsaquo;'' [8249],
    entity ''&rsquo;'' [39],
    entity ''&lsquo;'' [39],
    entity ''&rdquo;'' [34],
    entity ''&ldquo;'' [34],
    entity ''&amp;'' (str ''&''),
    entity ''&lt;'' (str ''<''),
    entity ''&gt;'' (str ''>''),
    entity ''<sup>'' [],
    entity ''</sup>'' [],
    entity ''&trade;'' [8482],
    entity ''&copy;'' [169],
    entity ''&mdash;'' [8212],
    entity ''&ndash;'' [8211],
    entity ''&hellip;'' (str ''...''),
    entity ''&bull;'' [8226],
    entity ''&dagger;'' [8224],
    entity ''&quot;'' [34],
    entity ''&apos;'' [39],
    entity ''&game;'' [],
    entity ''&lan;'' [],
    entity ''&logout;'' []]\<close>

definition clean_boilerplate :: "pystr \<Rightarrow> pystr" where
  "clean_boilerplate text = apply_rules boilerplate_rules text"

subsection \<open>\<^verbatim>\<open>clean_signatures\<close>\<close>

definition sig_pattern :: re where
  \<open>sig_pattern =
     cat [ilit ''Gabriel Kreiman'', star sp, nl,
          opt (cat [ilit ''Professor'', star sp, nl]),
          opt (cat [ilit ''Children's Hospital'', opt (lit '',''), star sp]),
          opt (cat [ilit ''Harvard Medical School'', star sp, nl]),
          opt (cat [ilit ''http://klab.tch.harvard.edu'', opt (lit ''/''), star sp, nl]),
          opt (cat [ilit ''http'', opt (ilit ''s''), ilit ''://twitter.com/gkreiman'', star sp, nl]),
          opt (cat [lazy_star dot, ilit ''Check out our new book'', lazy_star dot, nl]),
          opt (cat [lazy_star dot, ilit ''cambridge.org'', lazy_star dot, nl])]
     \<comment> \<open>Gabriel Kreiman\s*\n(?:Professor\s*\n)?(?:Children\'s Hospital,?\s*)?(?:Harvard Medical School\s*\n)?(?:http://klab\.tch\.harvard\.edu/?\s*\n)?(?:https?://twitter\.com/gkreiman\s*\n)?(?:.*?Check out our new book.*?\n)?(?:.*?cambridge\.org.*?\n)?   IGNORECASE\<close>\<close>

text \<open>\<^verbatim>\<open>text[:sig.start()] + '\n-- Gabriel Kreiman\n' + text[sig.end():]\<close>\<close>

definition short_sig :: "pystr \<Rightarrow> span \<Rightarrow> pystr" where
  "short_sig t m =
     (case m of (a, b, g) \<Rightarrow> take a t @ [10] @ str ''-- Gabriel Kreiman'' @ [10] @ drop b t)"

definition clean_signatures :: "pystr \<Rightarrow> pystr" where
  "clean_signatures text =
     (let sigs = re_finditer sig_pattern text in
      if length sigs > 1 then foldl short_sig text (rev (tl sigs)) else text)"

subsection \<open>\<^verbatim>\<open>simplify_quoted_replies\<close>\<close>

text \<open>The inner \<^verbatim>\<open>while stripped.startswith('>')\<close> loop, from the left-stripped line.\<close>

function quote_depth :: "pystr \<Rightarrow> nat" where
  "quote_depth stripped =
     (case stripped of [] \<Rightarrow> 0
      | c # s \<Rightarrow> if c = 62 then Suc (quote_depth (lstrip s)) else 0)"
  by pat_completeness auto
termination
  by (relation "measure length") (auto simp: lstrip_def length_dropWhile_le le_imp_less_Suc)

text \<open>The loop over the lines; its state is \<open>result\<close> and \<open>in_deep_quote\<close>.\<close>

fun quote_loop :: "pystr list \<Rightarrow> pystr list \<Rightarrow> bool \<Rightarrow> pystr list" where
  "quote_loop [] result in_deep_quote = result"
| "quote_loop (line # lines) result in_deep_quote =
     (let current_depth = quote_depth (lstrip line) in
      if current_depth \<le> 1 then quote_loop lines (result @ [line]) False
      else if \<not> in_deep_quote
           then quote_loop lines (result @ [str ''[Previous messages truncated]'']) True
           else quote_loop lines result in_deep_quote)"

definition simplify_quoted_replies :: "pystr \<Rightarrow> pystr" where
  "simplify_quoted_replies text = join [10] (quote_loop (split_on 10 text) [] False)"

subsection \<open>\<^verbatim>\<open>clean_whitespace\<close>\<close>

text \<open>The rules before \<^verbatim>\<open>text = text.strip()\<close>, and the rules after it.\<close>

definition rules_before_strip :: "rule list" where
  \<open>rules_before_strip =
   [Sub (atleast 3 nl) (Txt [10, 10])
      \<comment> \<open>\n{3,}\<close>,
    Sub (cat [plus_re (cls [ch CHR '' '', Is 9]), nl]) (Txt [10])
      \<comment> \<open>[ \t]+\n\<close>]\<close>

definition rules_after_strip :: "rule list" where
  \<open>rules_after_strip =
   [Sub (cat [nl, star sp, lit ''[...]'', star sp, nl]) (Txt [10])
      \<comment> \<open>\n\s*\[\.\.\.\]\s*\n\<close>,
    Sub (cat [nl, star sp, opt (lit ''|''), star sp, nl]) (Txt [10])
      \<comment> \<open>\n\s*\|?\s*\n\<close>,
    Sub (cat [nl, lit ''|'', star (ncls [ch CHR ''|'', az, AZ, d09]), opt (lit ''|''), nl]) (Txt [10])
      \<comment> \<open>\n\|[^|a-zA-Z0-9]*\|?\n\<close>,
    Sub (cat [lit ''['', star sp, lit '']'']) (Txt [])
      \<comment> \<open>\[\s*\]\<close>,
    Sub (cat [lit ''('', star sp, lit '')'']) (Txt [])
      \<comment> \<open>\(\s*\)\<close>,
    Sub (atleast 100 (cls [AZ, az, d09, ch CHR ''+'', ch CHR ''/'', ch CHR ''=''])) 
        (Txt (str ''[encoded content removed]''))
      \<comment> \<open>[A-Za-z0-9+/=]{100,}\<close>,
    Sub (atleast 10 (cls [ch CHR ''_''])) (Txt [])
      \<comment> \<open>_{10,}\<close>,
    Sub (cat [lit ''](tel:'', plus_re not_rparen, lit '')'']) (Txt [])
      \<comment> \<open>\]\(tel:[^)]+\)\<close>,
    Sub (cat [lit '']('', nl, star not_rparen, lit '')'']) (Txt [])
      \<comment> \<open>\]\(\n[^)]*\)\<close>,
    Replace [8203] [],
    Replace [8204] [],
    Replace [8205] [],
    Replace [8239] (str '' ''),
    Replace [173] [],
    Replace [65279] [],
    Sub (cat [nl, plus_re (cls [Space, Is 8204, Is 8203, Is 8204]), nl]) (Txt [10])
      \<comment> \<open>\n[\s\u200c\u200b(U+200C)]+\n   where (U+200C) is that character itself\<close>,
    Sub (plus_re (Grp (cat [cls [Is 8204], star sp]))) (Txt [])
      \<comment> \<open>((U+200C)\s*)+   where (U+200C) is that character itself\<close>,
    Replace [13, 10] [10],
    Replace [13] [10]]\<close>

definition whitespace_rules :: "rule list" where
  "whitespace_rules = rules_before_strip @ [Strip] @ rules_after_strip"

definition clean_whitespace :: "pystr \<Rightarrow> pystr" where
  "clean_whitespace text = apply_rules whitespace_rules text"

subsection \<open>\<^verbatim>\<open>clean_email_content\<close>\<close>

definition clean_email_content :: "pystr \<Rightarrow> pystr" where
  "clean_email_content content =
     (let text = content;
          text = clean_tracking_urls text;
          text = clean_html_tags text;
          text = remove_attachment_metadata text;
          text = clean_markdown_artifacts text;
          text = remove_duplicate_content text;
          text = clean_boilerplate text;
          text = clean_signatures text;
          text = simplify_quoted_replies text;
          text = clean_whitespace text
      in text)"

text \<open>
  What the theorems about the sampler assume of \<^verbatim>\<open>random.shuffle\<close>: the shuffled list is a
  permutation of the list.  \<open>rev_shuffle\<close> is one such shuffle, and \<open>pool3\<close> a small pool, for
  the concrete runs below.
\<close>

definition fair :: "('g \<Rightarrow> email list \<Rightarrow> email list \<times> 'g) \<Rightarrow> bool" where
  "fair shuffle = (\<forall>g xs. mset (fst (shuffle g xs)) = mset xs)"

definition rev_shuffle :: "nat \<Rightarrow> email list \<Rightarrow> email list \<times> nat" where
  "rev_shuffle g xs = (rev xs, Suc g)"


definition mk_email :: "string \<Rightarrow> string \<Rightarrow> string \<Rightarrow> string \<Rightarrow> email" where
  "mk_email tid frm content category =
     \<lparr>thread_id = str tid, num_memories = 1, num_headlines = 0, headlines = None, topics = [],
      people = [], anchors = [], full_content = str content, email_preview = [],
      personal_or_work = str category, e_from = str frm, e_to = [], subject = [], e_time = []\<rparr>"

definition pool3 :: "email list" where
  "pool3 = [mk_email ''t1'' ''Ann <ann@x.org>'' ''Message 1'' ''work'',
            mk_email ''t2'' ''bob@x.org'' ''Message 1'' ''work'',
            mk_email ''t3'' ''ANN@x.org'' ''Message 1'' ''personal'']"


section \<open>Notions that the theorems are stated with\<close>

subsection \<open>What a pattern has to read\<close>

text \<open>
  \<open>shrinks f\<close>: the matcher \<open>f\<close> only moves forward in the text.  \<open>reads m f\<close>: every match of
  \<open>f\<close> reads at least \<open>m\<close> characters.
\<close>

definition shrinks :: "(mstate \<Rightarrow> mstate list) \<Rightarrow> bool" where
  "shrinks f = (\<forall>st st'. st' \<in> set (f st) \<longrightarrow> suffix (rest st') (rest st))"

definition reads :: "nat \<Rightarrow> (mstate \<Rightarrow> mstate list) \<Rightarrow> bool" where
  "reads m f = (\<forall>st st'. st' \<in> set (f st) \<longrightarrow> length (rest st') + m \<le> length (rest st))"

text \<open>
  \<open>needs A r\<close>: by its shape, every match of \<open>r\<close> has to read a character of \<open>A\<close>
  (a literal character of the pattern that lies in \<open>A\<close>).
\<close>

fun item_in :: "(nat \<Rightarrow> bool) \<Rightarrow> citem \<Rightarrow> bool" where
  "item_in A (Is a) = A a"
| "item_in A i = False"

primrec needs :: "(nat \<Rightarrow> bool) \<Rightarrow> re \<Rightarrow> bool" where
  "needs A (Chr k) = (case k of In its \<Rightarrow> list_all (item_in A) its | NotIn its \<Rightarrow> False)"
| "needs A Eps = False"
| "needs A (Seq r1 r2) = (needs A r1 \<or> needs A r2)"
| "needs A (Alt r1 r2) = (needs A r1 \<and> needs A r2)"
| "needs A (Rep gr lo hi r) = (lo > 0 \<and> needs A r)"
| "needs A (Grp r) = needs A r"
| "needs A (Look r) = needs A r"
| "needs A Bol = False"
| "needs A Eos = False"

text \<open>\<open>minlen r\<close>: a number of characters that every match of \<open>r\<close> reads at least.\<close>

primrec minlen :: "re \<Rightarrow> nat" where
  "minlen (Chr k) = 1"
| "minlen Eps = 0"
| "minlen (Seq r1 r2) = minlen r1 + minlen r2"
| "minlen (Alt r1 r2) = min (minlen r1) (minlen r2)"
| "minlen (Rep gr lo hi r) = lo * max 1 (minlen r)"
| "minlen (Grp r) = minlen r"
| "minlen (Look r) = 0"
| "minlen Bol = 0"
| "minlen Eos = 0"

subsection \<open>A rule that finds nothing to rewrite\<close>

text \<open>
  \<open>occurs old t\<close>: the text \<open>old\<close> occurs in \<open>t\<close>.  \<open>trimmed t\<close>: no white space at either end
  of \<open>t\<close>.  \<open>rule_quiet rule t\<close>: the shape that \<open>rule\<close> rewrites is absent from \<open>t\<close> (its
  pattern is found nowhere; for the rules that keep a first match, at most once).
  \<open>rule_idle A n rule\<close> is a sufficient check on the rule alone, for every text of at most \<open>n\<close>
  characters without a character of \<open>A\<close>.
\<close>

fun occurs :: "pystr \<Rightarrow> pystr \<Rightarrow> bool" where
  "occurs old [] = (old = [])"
| "occurs old (c # s) = (prefix old (c # s) \<or> occurs old s)"

definition trimmed :: "pystr \<Rightarrow> bool" where
  "trimmed t = (t = [] \<or> (\<not> is_space (hd t) \<and> \<not> is_space (last t)))"

fun rule_quiet :: "rule \<Rightarrow> pystr \<Rightarrow> bool" where
  "rule_quiet (Sub r rp) t = (re_search r t = None)"
| "rule_quiet (Replace old new) t = (\<not> occurs old t)"
| "rule_quiet (KeepFirst r) t = (length (re_finditer r t) \<le> 1)"
| "rule_quiet Strip t = trimmed t"

definition rules_quiet :: "rule list \<Rightarrow> pystr \<Rightarrow> bool" where
  "rules_quiet rules t = list_all (\<lambda>r. rule_quiet r t) rules"

fun rule_idle :: "(nat \<Rightarrow> bool) \<Rightarrow> nat \<Rightarrow> rule \<Rightarrow> bool" where
  "rule_idle A n (Sub r rp) = (needs A r \<or> n < minlen r)"
| "rule_idle A n (Replace old new) = list_ex A old"
| "rule_idle A n (KeepFirst r) = (needs A r \<or> n < minlen r)"
| "rule_idle A n Strip = False"

text \<open>\<open>shallow t\<close>: no line of \<open>t\<close> is quoted more than once.\<close>

definition shallow :: "pystr \<Rightarrow> bool" where
  "shallow t = list_all (\<lambda>line. quote_depth (lstrip line) \<le> 1) (split_on 10 t)"

text \<open>
  \<open>quiet t\<close>: no stage of the pipeline finds anything to rewrite in \<open>t\<close>.
  \<open>marker_free t\<close>: none of the marker tokens that the pipeline emits occurs in \<open>t\<close>.
\<close>

definition quiet :: "pystr \<Rightarrow> bool" where
  "quiet t =
     (rules_quiet tracking_rules t \<and> rules_quiet html_rules t \<and> rules_quiet attachment_rules t
      \<and> rules_quiet markdown_rules t \<and> re_search p_separator t = None
      \<and> rules_quiet boilerplate_rules t \<and> length (re_finditer sig_pattern t) \<le> 1
      \<and> shallow t \<and> rules_quiet whitespace_rules t)"

definition marker_free :: "pystr \<Rightarrow> bool" where
  "marker_free t =
     (\<not> occurs (str ''[Image]'') t \<and> \<not> occurs (str ''[Attachment]'') t
      \<and> \<not> occurs (str ''[encoded content removed]'') t
      \<and> \<not> occurs (str ''[Previous messages truncated]'') t)"

subsection \<open>Segments and header lines, in the words of the specification\<close>






subsection \<open>Concrete inputs\<close>





definition x0 :: pystr where "x0 = str ''&amp;reg;''"
definition x1 :: pystr where "x1 = str ''&reg;''"
definition x2 :: pystr where "x2 = str '' <b>Hi</b> &lt;  ''"
definition x3 :: pystr where "x3 = str ''Hi <''"
definition garbage :: pystr where "garbage = [0, 27, 255, 65533, 56128, 7, 1114111]"
definition blanks :: pystr where "blanks = [32, 10, 9, 32, 13, 10, 160, 8195]"




section \<open>The matcher\<close>

declare rep.simps [simp del]

subsection \<open>A match ends in a suffix of the text\<close>

lemma rep_mem:
  "st' \<in> set (rep f gr lo hi st) \<Longrightarrow>
     st' = st \<or> (\<exists>x \<in> set (f st). length (rest x) < length (rest st)
                  \<and> st' \<in> set (rep f gr (lo - 1) (map_option (\<lambda>h. h - 1) hi) x))"
  by (subst (asm) rep.simps) (auto split: if_splits)

lemma rep_shrinks:
  assumes "shrinks f"
  shows "st' \<in> set (rep f gr lo hi st) \<Longrightarrow> suffix (rest st') (rest st)"
proof (induction "length (rest st)" arbitrary: st lo hi rule: less_induct)
  case less
  from rep_mem[OF less.prems] show ?case
  proof
    assume "st' = st"
    then show ?thesis by simp
  next
    assume "\<exists>x \<in> set (f st). length (rest x) < length (rest st)
                  \<and> st' \<in> set (rep f gr (lo - 1) (map_option (\<lambda>h. h - 1) hi) x)"
    then obtain x where x: "x \<in> set (f st)" "length (rest x) < length (rest st)"
       "st' \<in> set (rep f gr (lo - 1) (map_option (\<lambda>h. h - 1) hi) x)" by blast
    have a: "suffix (rest st') (rest x)"
      using less.hyps[OF x(2) x(3)] .
    have b: "suffix (rest x) (rest st)" using assms x(1) unfolding shrinks_def by blast
    from a b show ?thesis by (rule suffix_order.trans)
  qed
qed

lemma matches_shrinks: "shrinks (matches r)"
proof (induction r)
  case (Chr k)
  show ?case
    unfolding shrinks_def
  proof (intro allI impI)
    fix st st' assume a: "st' \<in> set (matches (Chr k) st)"
    obtain b s g where st: "st = (b, s, g)" by (cases st)
    show "suffix (rest st') (rest st)"
      using a st by (cases s) (auto simp: suffix_Cons split: if_splits)
  qed
next
  case Eps
  show ?case by (simp add: shrinks_def)
next
  case (Seq r1 r2)
  show ?case
    unfolding shrinks_def
  proof (intro allI impI)
    fix st st' assume "st' \<in> set (matches (Seq r1 r2) st)"
    then obtain x where "x \<in> set (matches r1 st)" "st' \<in> set (matches r2 x)" by auto
    then have "suffix (rest x) (rest st)" "suffix (rest st') (rest x)"
      using Seq unfolding shrinks_def by blast+
    then show "suffix (rest st') (rest st)" by (meson suffix_order.trans)
  qed
next
  case (Alt r1 r2)
  show ?case
    unfolding shrinks_def
  proof (intro allI impI)
    fix st st' assume "st' \<in> set (matches (Alt r1 r2) st)"
    then have "st' \<in> set (matches r1 st) \<or> st' \<in> set (matches r2 st)" by simp
    then show "suffix (rest st') (rest st)"
      using Alt unfolding shrinks_def by blast
  qed
next
  case (Rep gr lo hi r)
  show ?case
    unfolding shrinks_def
  proof (intro allI impI)
    fix st st' assume "st' \<in> set (matches (Rep gr lo hi r) st)"
    then have "st' \<in> set (rep (matches r) gr lo hi st)" by simp
    then show "suffix (rest st') (rest st)" by (rule rep_shrinks[OF Rep])
  qed
next
  case (Grp r)
  show ?case
    unfolding shrinks_def
  proof (intro allI impI)
    fix st st' assume "st' \<in> set (matches (Grp r) st)"
    then obtain x where x: "x \<in> set (matches r st)" "rest st' = rest x"
      by (auto split: prod.splits)
    have "suffix (rest x) (rest st)" using Grp x(1) unfolding shrinks_def by blast
    then show "suffix (rest st') (rest st)" using x(2) by simp
  qed
next
  case (Look r)
  show ?case by (simp add: shrinks_def)
next
  case Bol
  show ?case by (simp add: shrinks_def)
next
  case Eos
  show ?case by (simp add: shrinks_def)
qed

lemma matches_suffix:
  assumes "(b', s', g') \<in> set (matches r (b, s, g))"
  shows "suffix s' s"
proof -
  have "suffix (rest (b', s', g')) (rest (b, s, g))"
    using matches_shrinks[of r] assms unfolding shrinks_def by blast
  then show ?thesis by simp
qed


subsection \<open>A pattern whose literal character is absent matches nowhere\<close>

lemma item_in_has: "item_in A i \<Longrightarrow> item_has i c \<Longrightarrow> A c"
  by (cases i) auto

lemma needs_no_match:
  "needs A r \<Longrightarrow> \<forall>c \<in> set (rest st). \<not> A c \<Longrightarrow> matches r st = []"
proof (induction r arbitrary: st)
  case (Chr k)
  obtain b s g where st: "st = (b, s, g)" by (cases st)
  show ?case
  proof (cases s)
    case Nil
    with st show ?thesis by simp
  next
    case (Cons c s')
    have "\<not> A c" using Chr.prems(2) st Cons by simp
    moreover obtain its where k: "k = In its" "list_all (item_in A) its"
      using Chr.prems(1) by (cases k) auto
    ultimately have "\<not> accepts k c"
      using item_in_has[of A _ c] by (auto simp: list_ex_iff list_all_iff)
    with st Cons show ?thesis by simp
  qed
next
  case (Seq r1 r2)
  show ?case
  proof (cases "needs A r1")
    case True
    then show ?thesis using Seq.IH(1)[OF _ Seq.prems(2)] by simp
  next
    case False
    then have n2: "needs A r2" using Seq.prems(1) by simp
    have "matches r2 x = []" if "x \<in> set (matches r1 st)" for x
    proof -
      have "suffix (rest x) (rest st)"
        using matches_shrinks[of r1] that unfolding shrinks_def by blast
      then have "set (rest x) \<subseteq> set (rest st)" by (rule set_mono_suffix)
      then show ?thesis using Seq.IH(2)[OF n2] Seq.prems(2) by blast
    qed
    then show ?thesis by simp
  qed
next
  case (Alt r1 r2)
  then show ?case by simp
next
  case (Rep gr lo hi r)
  then have "matches r st = []" "lo \<noteq> 0" by auto
  then show ?case by (simp add: rep.simps)
next
  case (Grp r)
  then show ?case by simp
next
  case (Look r)
  then show ?case by simp
qed simp_all

lemma finditer_from_idle:
  "needs A r \<Longrightarrow> \<forall>c \<in> set s. \<not> A c \<Longrightarrow> finditer_from r i b s = []"
proof (induction s arbitrary: i b)
  case Nil
  then show ?case using needs_no_match[of A r "(b, [], None)"] by (simp add: match_at_def)
next
  case (Cons c s)
  have "matches r (b, c # s, None) = []"
    using needs_no_match[of A r "(b, c # s, None)"] Cons.prems by simp
  then show ?case using Cons by (simp add: match_at_def)
qed

subsection \<open>A pattern longer than the text matches nowhere\<close>

lemma rep_mem0:
  "st' \<in> set (rep f gr lo hi st) \<Longrightarrow>
     (st' = st \<and> lo = 0) \<or> (\<exists>x \<in> set (f st). length (rest x) < length (rest st)
                  \<and> st' \<in> set (rep f gr (lo - 1) (map_option (\<lambda>h. h - 1) hi) x))"
  by (subst (asm) rep.simps) (auto split: if_splits)

lemma rep_reads:
  assumes "reads m f"
  shows "st' \<in> set (rep f gr lo hi st) \<Longrightarrow> length (rest st') + lo * max 1 m \<le> length (rest st)"
proof (induction "length (rest st)" arbitrary: st lo hi rule: less_induct)
  case less
  from rep_mem0[OF less.prems] show ?case
  proof
    assume "st' = st \<and> lo = 0"
    then show ?thesis by simp
  next
    assume "\<exists>x \<in> set (f st). length (rest x) < length (rest st)
                  \<and> st' \<in> set (rep f gr (lo - 1) (map_option (\<lambda>h. h - 1) hi) x)"
    then obtain x where x: "x \<in> set (f st)" "length (rest x) < length (rest st)"
       "st' \<in> set (rep f gr (lo - 1) (map_option (\<lambda>h. h - 1) hi) x)" by blast
    have a: "length (rest st') + (lo - 1) * max 1 m \<le> length (rest x)"
      using less.hyps[OF x(2) x(3)] .
    have b: "length (rest x) + m \<le> length (rest st)" using assms x(1) unfolding reads_def by blast
    have c: "length (rest x) + max 1 m \<le> length (rest st)" using b x(2) by simp
    have "lo * max 1 m \<le> (lo - 1) * max 1 m + max 1 m"
      by (cases lo) simp_all
    with a c show ?thesis by linarith
  qed
qed

lemma matches_reads: "reads (minlen r) (matches r)"
proof (induction r)
  case (Chr k)
  show ?case
    unfolding reads_def
  proof (intro allI impI)
    fix st st' assume a: "st' \<in> set (matches (Chr k) st)"
    obtain b s g where st: "st = (b, s, g)" by (cases st)
    show "length (rest st') + minlen (Chr k) \<le> length (rest st)"
      using a st by (cases s) (auto split: if_splits)
  qed
next
  case Eps
  show ?case by (simp add: reads_def)
next
  case (Seq r1 r2)
  show ?case
    unfolding reads_def
  proof (intro allI impI)
    fix st st' assume "st' \<in> set (matches (Seq r1 r2) st)"
    then obtain x where "x \<in> set (matches r1 st)" "st' \<in> set (matches r2 x)" by auto
    then have "length (rest x) + minlen r1 \<le> length (rest st)"
       "length (rest st') + minlen r2 \<le> length (rest x)"
      using Seq unfolding reads_def by blast+
    then show "length (rest st') + minlen (Seq r1 r2) \<le> length (rest st)" by simp
  qed
next
  case (Alt r1 r2)
  show ?case
    unfolding reads_def
  proof (intro allI impI)
    fix st st' assume "st' \<in> set (matches (Alt r1 r2) st)"
    then have "st' \<in> set (matches r1 st) \<or> st' \<in> set (matches r2 st)" by simp
    then have "length (rest st') + minlen r1 \<le> length (rest st)
        \<or> length (rest st') + minlen r2 \<le> length (rest st)"
      using Alt unfolding reads_def by blast
    then show "length (rest st') + minlen (Alt r1 r2) \<le> length (rest st)" by auto
  qed
next
  case (Rep gr lo hi r)
  show ?case
    unfolding reads_def
  proof (intro allI impI)
    fix st st' assume "st' \<in> set (matches (Rep gr lo hi r) st)"
    then have "st' \<in> set (rep (matches r) gr lo hi st)" by simp
    then have "length (rest st') + lo * max 1 (minlen r) \<le> length (rest st)"
      by (rule rep_reads[OF Rep])
    then show "length (rest st') + minlen (Rep gr lo hi r) \<le> length (rest st)" by simp
  qed
next
  case (Grp r)
  show ?case
    unfolding reads_def
  proof (intro allI impI)
    fix st st' assume "st' \<in> set (matches (Grp r) st)"
    then obtain x where x: "x \<in> set (matches r st)" "rest st' = rest x"
      by (auto split: prod.splits)
    have "length (rest x) + minlen r \<le> length (rest st)" using Grp x(1) unfolding reads_def by blast
    then show "length (rest st') + minlen (Grp r) \<le> length (rest st)" using x(2) by simp
  qed
next
  case (Look r)
  show ?case by (simp add: reads_def)
next
  case Bol
  show ?case by (simp add: reads_def)
next
  case Eos
  show ?case by (simp add: reads_def)
qed

lemma short_no_match:
  assumes "length (rest st) < minlen r"
  shows "matches r st = []"
proof (rule ccontr)
  assume "matches r st \<noteq> []"
  then obtain x where "x \<in> set (matches r st)" by (cases "matches r st") auto
  then have "length (rest x) + minlen r \<le> length (rest st)"
    using matches_reads[of r] unfolding reads_def by blast
  with assms show False by simp
qed

lemma finditer_from_short:
  "length s < minlen r \<Longrightarrow> finditer_from r i b s = []"
proof (induction s arbitrary: i b)
  case Nil
  then show ?case using short_no_match[of "(b, [], None)" r] by (simp add: match_at_def)
next
  case (Cons c s)
  have "matches r (b, c # s, None) = []"
    using short_no_match[of "(b, c # s, None)" r] Cons.prems by simp
  then show ?case using Cons by (simp add: match_at_def)
qed


subsection \<open>Quiet rules leave the text as it is\<close>

lemma search_None_iff: "re_search r t = None \<longleftrightarrow> re_finditer r t = []"
  by (simp add: re_search_def split: list.splits)

lemma re_sub_quiet: "re_search r t = None \<Longrightarrow> re_sub r rp t = t"
  by (simp add: search_None_iff re_sub_def)

lemma str_replace_quiet: "\<not> occurs old t \<Longrightarrow> str_replace old new t = t"
  by (induction old new t rule: str_replace.induct) auto

lemma keep_first_quiet: "length (re_finditer r t) \<le> 1 \<Longrightarrow> keep_first r t = t"
  by (simp add: keep_first_def Let_def)

lemma strip_trimmed: "trimmed t \<Longrightarrow> strip t = t"
proof (cases t)
  case Nil
  then show ?thesis by (simp add: strip_def)
next
  case (Cons c s)
  assume "trimmed t"
  then have h: "\<not> is_space (hd t)" "\<not> is_space (last t)" using Cons by (auto simp: trimmed_def)
  have 1: "dropWhile is_space t = t" using h(1) Cons by simp
  obtain y ys where r: "rev t = y # ys" using Cons by (cases "rev t") auto
  have "hd (rev t) = last t" using Cons by (simp add: hd_rev)
  then have "\<not> is_space y" using h(2) r by simp
  then have "dropWhile is_space (y # ys) = y # ys" by simp
  then have 2: "dropWhile is_space (rev t) = rev t" using r by simp
  show ?thesis by (simp add: strip_def 1 2)
qed

lemma rule_quiet_id: "rule_quiet rule t \<Longrightarrow> apply_rule rule t = t"
  by (cases rule) (simp_all add: re_sub_quiet str_replace_quiet keep_first_quiet strip_trimmed)

lemma rules_quiet_id: "rules_quiet rules t \<Longrightarrow> apply_rules rules t = t"
  unfolding rules_quiet_def apply_rules_def
  by (induction rules) (simp_all add: rule_quiet_id)

lemma occurs_set: "occurs old t \<Longrightarrow> old \<noteq> [] \<Longrightarrow> set old \<subseteq> set t"
proof (induction t)
  case Nil
  then show ?case by simp
next
  case (Cons a t)
  show ?case
  proof (cases "prefix old (a # t)")
    case True
    then show ?thesis by (rule set_mono_prefix)
  next
    case False
    then have "occurs old t" using Cons.prems(1) by simp
    then have "set old \<subseteq> set t" using Cons.IH Cons.prems(2) by simp
    then show ?thesis by auto
  qed
qed

lemma occurs_idle:
  assumes "list_ex A old" "\<forall>c \<in> set t. \<not> A c"
  shows "\<not> occurs old t"
proof
  assume o: "occurs old t"
  have "old \<noteq> []" using assms(1) by auto
  from occurs_set[OF o this] assms show False by (auto simp: list_ex_iff)
qed

lemma rule_idle_quiet:
  assumes "rule_idle A n rule" "\<forall>c \<in> set t. \<not> A c" "length t \<le> n"
  shows "rule_quiet rule t"
proof (cases rule)
  case (Sub r rp)
  have "re_finditer r t = []"
    using assms Sub finditer_from_idle[of A r t 0 True] finditer_from_short[of t r 0 True]
    by (auto simp: re_finditer_def)
  then show ?thesis using Sub by (simp add: search_None_iff)
next
  case (Replace old new)
  then show ?thesis using assms occurs_idle by simp
next
  case (KeepFirst r)
  have "re_finditer r t = []"
    using assms KeepFirst finditer_from_idle[of A r t 0 True] finditer_from_short[of t r 0 True]
    by (auto simp: re_finditer_def)
  then show ?thesis using KeepFirst by simp
next
  case Strip
  then show ?thesis using assms by simp
qed

lemma rules_idle_quiet:
  "list_all (rule_idle A n) rules \<Longrightarrow> \<forall>c \<in> set t. \<not> A c \<Longrightarrow> length t \<le> n \<Longrightarrow> rules_quiet rules t"
  unfolding rules_quiet_def by (auto simp: list_all_iff intro: rule_idle_quiet)

lemma rules_idle_id:
  "list_all (rule_idle A n) rules \<Longrightarrow> \<forall>c \<in> set t. \<not> A c \<Longrightarrow> length t \<le> n \<Longrightarrow> apply_rules rules t = t"
  by (rule rules_quiet_id) (rule rules_idle_quiet)

lemma apply_rules_append: "apply_rules (xs @ ys) t = apply_rules ys (apply_rules xs t)"
  by (simp add: apply_rules_def)

lemma remove_duplicate_quiet: "re_search p_separator t = None \<Longrightarrow> remove_duplicate_content t = t"
  by (simp add: remove_duplicate_content_def re_split_def search_None_iff)

lemma clean_signatures_quiet: "length (re_finditer sig_pattern t) \<le> 1 \<Longrightarrow> clean_signatures t = t"
  by (simp add: clean_signatures_def Let_def)

lemma split_on_not_Nil: "split_on c t \<noteq> []"
  by (induction t) (auto split: list.splits)

lemma join_split_on: "join [c] (split_on c t) = t"
proof (induction t)
  case Nil
  then show ?case by simp
next
  case (Cons x xs)
  obtain l ls where s: "split_on c xs = l # ls"
    using split_on_not_Nil[of c xs] by (cases "split_on c xs") auto
  show ?case
  proof (cases "x = c")
    case True
    then show ?thesis using Cons s by simp
  next
    case False
    then show ?thesis using Cons s by (cases ls) simp_all
  qed
qed

lemma quote_loop_shallow:
  "list_all (\<lambda>line. quote_depth (lstrip line) \<le> 1) lines \<Longrightarrow> quote_loop lines result b = result @ lines"
  by (induction lines arbitrary: result b) (simp_all add: Let_def)

lemma simplify_quoted_quiet: "shallow t \<Longrightarrow> simplify_quoted_replies t = t"
  by (simp add: simplify_quoted_replies_def shallow_def quote_loop_shallow join_split_on)


subsection \<open>Evaluating the pipeline on a concrete text\<close>

lemma re_finditer_fast2:
  "re_finditer r t = (if needs (\<lambda>c. c \<notin> set t) r \<or> length t < minlen r then []
                      else finditer_from r 0 True t)"
  using finditer_from_idle[of "\<lambda>c. c \<notin> set t" r t 0 True] finditer_from_short[of t r 0 True]
  by (auto simp: re_finditer_def)

lemmas pat_defs = lit_def ilit_def cat_def alts_def url_of_def http_s_def opt_def star_def plus_re_def atleast_def
  lazy_star_def cls_def ncls_def ch_def dot_def anychar_def url_ch_def host_ch_def dom_ch_def hex_ch_def
  digit_def sp_def nl_def nonspace_def not_rparen_def not_rbracket_def not_gt_def az_def AZ_def d09_def
  tag_names_def header_line_def until_blank_def footer_line_def entity_def caseless_def

lemmas run_defs = apply_rules_def re_sub_def re_search_def re_split_def keep_first_def match_at_def
  rep.simps strip_def lstrip_def is_space_def is_digit_def is_word_def in_ranges_def str_def re_finditer_fast2
  remove_duplicate_content_def has_message_header_def clean_signatures_def
  simplify_quoted_replies_def Let_def


(*ENGINE-END*)

section \<open>The sender cap\<close>

lemma sent_append: "sent k (xs @ ys) = sent k xs + sent k ys"
  by (simp add: sent_def)

lemma sent_Nil: "sent k [] = 0"
  by (simp add: sent_def)

lemma capped_step:
  assumes "capped m counts acc" and "counts (extract_sender e) < m"
  shows "capped m (counts (extract_sender e := counts (extract_sender e) + 1)) (acc @ [e])"
  unfolding capped_def
proof (intro allI)
  fix k
  have h: "sent k acc \<le> counts k" "counts k \<le> m"
    using assms(1) unfolding capped_def by auto
  have a: "sent k (acc @ [e]) = sent k acc + (if extract_sender e = k then 1 else 0)"
    by (simp add: sent_def)
  show "sent k (acc @ [e]) \<le> (counts (extract_sender e := counts (extract_sender e) + 1)) k
      \<and> (counts (extract_sender e := counts (extract_sender e) + 1)) k \<le> m"
    using h assms(2) a by auto
qed

lemma sample_loop_capped:
  "sample_loop es t m sel counts = (sel', counts') \<Longrightarrow> capped m counts (acc @ sel)
   \<Longrightarrow> capped m counts' (acc @ sel')"
proof (induction es arbitrary: sel counts)
  case Nil
  then show ?case by simp
next
  case (Cons e es)
  show ?case
  proof (cases "int (length sel) \<ge> t")
    case True
    with Cons.prems show ?thesis by simp
  next
    case False
    show ?thesis
    proof (cases "counts (extract_sender e) < m")
      case True
      have c: "capped m (counts (extract_sender e := counts (extract_sender e) + 1)) (acc @ sel @ [e])"
        using capped_step[OF Cons.prems(2) True] by simp
      have "sample_loop es t m (sel @ [e]) (counts (extract_sender e := counts (extract_sender e) + 1))
          = (sel', counts')"
        using Cons.prems(1) False True by simp
      from Cons.IH[OF this c] show ?thesis .
    next
      case F2: False
      have "sample_loop es t m sel counts = (sel', counts')"
        using Cons.prems(1) False F2 by simp
      from Cons.IH[OF this Cons.prems(2)] show ?thesis .
    qed
  qed
qed

lemma sample_capped:
  "sample_with_global_sender_cap sh es t m counts g = (sel, counts', g') \<Longrightarrow> capped m counts acc
   \<Longrightarrow> capped m counts' (acc @ sel)"
  unfolding sample_with_global_sender_cap_def
  using sample_loop_capped[where sel="[]" and acc=acc]
  by (auto split: prod.splits)

lemma bucket_loop_capped:
  "bucket_loop sh emails ts sel sf counts g = (sel', sf', counts', g')
   \<Longrightarrow> capped MAX_PER_SENDER counts (acc @ sel) \<Longrightarrow> capped MAX_PER_SENDER counts' (acc @ sel')"
proof (induction ts arbitrary: sel sf counts g)
  case Nil
  then show ?case by simp
next
  case (Cons bt ts)
  obtain bucket target where bt: "bt = (bucket, target)" by (cases bt)
  obtain sampled c1 g1 where s: "sample_with_global_sender_cap sh
      (filter (\<lambda>e. get_message_bucket e = bucket) emails) target MAX_PER_SENDER counts g = (sampled, c1, g1)"
    by (cases "sample_with_global_sender_cap sh
      (filter (\<lambda>e. get_message_bucket e = bucket) emails) target MAX_PER_SENDER counts g") auto
  have c: "capped MAX_PER_SENDER c1 (acc @ sel @ sampled)"
    using sample_capped[OF s Cons.prems(2)] by simp
  have "bucket_loop sh emails ts (sel @ sampled)
      (if target - int (length sampled) > 0 then sf + (target - int (length sampled)) else sf) c1 g1
      = (sel', sf', counts', g')"
    using Cons.prems(1) s bt by (simp add: Let_def)
  from Cons.IH[OF this c] show ?case .
qed

lemma select_capped:
  assumes "select_emails_with_global_cap sh emails ctg ts counts tt g = (sel, counts', g')"
    and "capped MAX_PER_SENDER counts acc"
  shows "capped MAX_PER_SENDER counts' (acc @ sel)"
proof -
  obtain s1 sf c1 g1 where b: "bucket_loop sh emails ts [] 0 counts g = (s1, sf, c1, g1)"
    by (cases "bucket_loop sh emails ts [] 0 counts g") auto
  have c: "capped MAX_PER_SENDER c1 (acc @ s1)"
    using bucket_loop_capped[OF b, of acc] assms(2) by simp
  show ?thesis
  proof (cases "sf > 0")
    case False
    with assms(1) b c show ?thesis
      by (simp add: select_emails_with_global_cap_def)
  next
    case True
    obtain ad c2 g2 where a: "sample_with_global_sender_cap sh
        (filter (\<lambda>e. get_message_bucket e = ''1-msg'' \<and> thread_id e \<notin> set (map thread_id s1)) emails)
        sf MAX_PER_SENDER c1 g1 = (ad, c2, g2)"
      using prod_cases3 by blast
    have "capped MAX_PER_SENDER c2 ((acc @ s1) @ ad)"
      using sample_capped[OF a c] .
    with assms(1) b a True show ?thesis
      by (simp add: select_emails_with_global_cap_def Let_def)
  qed
qed

lemma main_selection_sent: "sent k (main_selection shuffle seed pool) \<le> MAX_PER_SENDER"
proof -
  have c0: "capped MAX_PER_SENDER (\<lambda>sender. 0) []"
    by (simp add: capped_def sent_def MAX_PER_SENDER_def)
  obtain sw c1 g1 where w: "select_emails_with_global_cap shuffle
      (filter (\<lambda>e. personal_or_work e = str ''work'') pool) ''work'' WORK_TARGETS (\<lambda>sender. 0) 200 (seed 42) = (sw, c1, g1)"
    using prod_cases3 by blast
  obtain sp c2 g2 where p: "select_emails_with_global_cap shuffle
      (filter (\<lambda>e. personal_or_work e = str ''personal'') pool) ''personal'' PERSONAL_TARGETS c1 150 g1 = (sp, c2, g2)"
    using prod_cases3 by blast
  have "capped MAX_PER_SENDER c1 sw" using select_capped[OF w c0] by simp
  then have "capped MAX_PER_SENDER c2 (sw @ sp)" using select_capped[OF p] by simp
  moreover have "main_selection shuffle seed pool = sw @ sp"
    by (simp add: main_selection_def Let_def w p)
  ultimately have "sent k (main_selection shuffle seed pool) \<le> c2 k" "c2 k \<le> MAX_PER_SENDER"
    unfolding capped_def by auto
  then show ?thesis by linarith
qed

text \<open>
  C2. In every selection run (work first, then personal, over one count map) no sender key
  has more than \<open>MAX_PER_SENDER\<close> = 10 records in the combined selection, whatever the
  shuffle does.
\<close>

theorem sender_cap_invariant:
  "int (length (filter (\<lambda>e. extract_sender e = k) (main_selection shuffle seed pool))) \<le> MAX_PER_SENDER"
  using main_selection_sent[of k shuffle seed pool] by (simp add: sent_def)

section \<open>Size and membership of a sample\<close>

lemma sample_loop_shape:
  "sample_loop es t m sel counts = (sel', counts')
   \<Longrightarrow> \<exists>new. sel' = sel @ new \<and> subseq new es \<and> int (length sel') \<le> max t (int (length sel))"
proof (induction es arbitrary: sel counts)
  case Nil
  then show ?case by auto
next
  case (Cons e es)
  show ?case
  proof (cases "int (length sel) \<ge> t")
    case True
    with Cons.prems show ?thesis by auto
  next
    case False
    show ?thesis
    proof (cases "counts (extract_sender e) < m")
      case True
      have "sample_loop es t m (sel @ [e]) (counts (extract_sender e := counts (extract_sender e) + 1))
          = (sel', counts')"
        using Cons.prems False True by simp
      from Cons.IH[OF this] obtain new where
        n: "sel' = (sel @ [e]) @ new" "subseq new es" "int (length sel') \<le> max t (int (length (sel @ [e])))"
        by blast
      have "sel' = sel @ (e # new)" using n(1) by simp
      moreover have "subseq (e # new) (e # es)" using n(2) by simp
      moreover have "int (length sel') \<le> max t (int (length sel))" using n(3) False by auto
      ultimately show ?thesis by blast
    next
      case F2: False
      have "sample_loop es t m sel counts = (sel', counts')"
        using Cons.prems False F2 by simp
      from Cons.IH[OF this] obtain new where
        n: "sel' = sel @ new" "subseq new es" "int (length sel') \<le> max t (int (length sel))"
        by blast
      have "subseq new (e # es)" using subseq_drop_many[OF n(2), of "[e]"] by simp
      with n show ?thesis by blast
    qed
  qed
qed

lemma sample_shape:
  assumes "sample_with_global_sender_cap sh es t m counts g = (sel, counts', g')"
  shows "subseq sel (fst (sh g es))" and "int (length sel) \<le> max t 0"
proof -
  obtain shuffled g1 where s: "sh g es = (shuffled, g1)" by (cases "sh g es") auto
  obtain s1 c1 where l: "sample_loop shuffled t m [] counts = (s1, c1)"
    by (cases "sample_loop shuffled t m [] counts") auto
  have "sel = s1" using assms s l by (simp add: sample_with_global_sender_cap_def)
  with sample_loop_shape[OF l] s show "subseq sel (fst (sh g es))" and "int (length sel) \<le> max t 0"
    by auto
qed

lemma subseq_mset: "subseq xs ys \<Longrightarrow> mset xs \<subseteq># mset ys"
  by (induction rule: list_emb.induct) (auto simp: subseteq_mset_def le_SucI)

lemma sample_sub:
  assumes "fair sh" "sample_with_global_sender_cap sh es t m counts g = (sel, counts', g')"
  shows "mset sel \<subseteq># mset es"
proof -
  have "mset sel \<subseteq># mset (fst (sh g es))"
    using sample_shape(1)[OF assms(2)] by (rule subseq_mset)
  moreover have "mset (fst (sh g es)) = mset es"
    using assms(1) unfolding fair_def by blast
  ultimately show ?thesis by simp
qed

lemma bucket_loop_size:
  "bucket_loop sh emails ts sel sf counts g = (sel', sf', counts', g')
   \<Longrightarrow> int (length sel') + sf' = int (length sel) + sf + sum_list (map (\<lambda>bt. max 0 (snd bt)) ts)
       \<and> sf \<le> sf'"
proof (induction ts arbitrary: sel sf counts g)
  case Nil
  then show ?case by simp
next
  case (Cons bt ts)
  obtain bucket target where bt: "bt = (bucket, target)" by (cases bt)
  obtain sampled c1 g1 where s: "sample_with_global_sender_cap sh
      (filter (\<lambda>e. get_message_bucket e = bucket) emails) target MAX_PER_SENDER counts g = (sampled, c1, g1)"
    by (cases "sample_with_global_sender_cap sh
      (filter (\<lambda>e. get_message_bucket e = bucket) emails) target MAX_PER_SENDER counts g") auto
  have le: "int (length sampled) \<le> max target 0" using sample_shape(2)[OF s] .
  have "bucket_loop sh emails ts (sel @ sampled)
      (if target - int (length sampled) > 0 then sf + (target - int (length sampled)) else sf) c1 g1
      = (sel', sf', counts', g')"
    using Cons.prems(1) s bt by (simp add: Let_def)
  from Cons.IH[OF this] have
    "int (length sel') + sf' = int (length (sel @ sampled))
       + (if target - int (length sampled) > 0 then sf + (target - int (length sampled)) else sf)
       + sum_list (map (\<lambda>bt. max 0 (snd bt)) ts)"
    "(if target - int (length sampled) > 0 then sf + (target - int (length sampled)) else sf) \<le> sf'"
    by simp_all
  then show ?case using le bt by (auto split: if_splits)
qed

lemma select_size:
  assumes "select_emails_with_global_cap sh emails ctg ts counts tt g = (sel, counts', g')"
  shows "int (length sel) \<le> sum_list (map (\<lambda>bt. max 0 (snd bt)) ts)"
proof -
  obtain s1 sf c1 g1 where b: "bucket_loop sh emails ts [] 0 counts g = (s1, sf, c1, g1)"
    by (cases "bucket_loop sh emails ts [] 0 counts g") auto
  have e: "int (length s1) + sf = sum_list (map (\<lambda>bt. max 0 (snd bt)) ts)" and sf0: "0 \<le> sf"
    using bucket_loop_size[OF b] by simp_all
  show ?thesis
  proof (cases "sf > 0")
    case False
    with assms b have "sel = s1" by (simp add: select_emails_with_global_cap_def)
    with e sf0 show ?thesis by simp
  next
    case True
    obtain ad c2 g2 where a: "sample_with_global_sender_cap sh
        (filter (\<lambda>e. get_message_bucket e = ''1-msg'' \<and> thread_id e \<notin> set (map thread_id s1)) emails)
        sf MAX_PER_SENDER c1 g1 = (ad, c2, g2)"
      using prod_cases3 by blast
    have "sel = s1 @ ad"
      using assms b a True by (simp add: select_emails_with_global_cap_def Let_def)
    moreover have "int (length ad) \<le> sf" using sample_shape(2)[OF a] True by simp
    ultimately show ?thesis using e by simp
  qed
qed

lemma fair_rev_shuffle: "fair rev_shuffle"
  by (simp add: fair_def rev_shuffle_def)


text \<open>
  C9. For every list of candidates, every target count and every count map, the sample has
  at most \<open>target_count\<close> records (none when the target is below zero), each of them a
  record of the input list; so a category's selection never exceeds the sum of its bucket
  targets.
\<close>

theorem sample_bounded:
  assumes "fair shuffle"
  shows "int (length (fst (sample_with_global_sender_cap shuffle emails target_count
                 max_per_sender counts g))) \<le> max 0 target_count
       \<and> set (fst (sample_with_global_sender_cap shuffle emails target_count
                 max_per_sender counts g)) \<subseteq> set emails
       \<and> int (length (fst (select_emails_with_global_cap shuffle emails category targets
                 counts total_target g))) \<le> sum_list (map (\<lambda>bt. max 0 (snd bt)) targets)"
proof -
  obtain sel c1 g1 where s: "sample_with_global_sender_cap shuffle emails target_count
      max_per_sender counts g = (sel, c1, g1)"
    using prod_cases3 by blast
  obtain sel2 c2 g2 where t: "select_emails_with_global_cap shuffle emails category targets
      counts total_target g = (sel2, c2, g2)"
    using prod_cases3 by blast
  have "set sel \<subseteq> set emails"
    using set_mset_mono[OF sample_sub[OF assms s]] by simp
  with sample_shape(2)[OF s] select_size[OF t] s t show ?thesis by simp
qed

theorem sample_bounded_witness:
  "fair rev_shuffle
   \<and> int (length (fst (sample_with_global_sender_cap rev_shuffle pool3 3 1 (\<lambda>s. 0) 0))) \<le> max 0 3
   \<and> set (fst (sample_with_global_sender_cap rev_shuffle pool3 3 1 (\<lambda>s. 0) 0)) \<subseteq> set pool3
   \<and> map thread_id (fst (sample_with_global_sender_cap rev_shuffle pool3 3 1 (\<lambda>s. 0) 0))
       = [str ''t3'', str ''t2'']"
proof -
  have e: "map thread_id (fst (sample_with_global_sender_cap rev_shuffle pool3 3 1 (\<lambda>s. 0) 0))
       = [str ''t3'', str ''t2'']"
    by code_simp
  show ?thesis
    using fair_rev_shuffle sample_bounded[OF fair_rev_shuffle, of pool3 3 1 "\<lambda>s. 0" 0] e
    by simp
qed

section \<open>No record is selected twice\<close>

lemma subseq_distinct': "subseq xs ys \<Longrightarrow> distinct ys \<Longrightarrow> distinct xs"
  by (induction rule: list_emb.induct) (auto elim: list_emb_set)

lemma subseq_set': "subseq xs ys \<Longrightarrow> set xs \<subseteq> set ys"
  by (auto elim: list_emb_set)

lemma sample_distinct:
  assumes "fair sh" "distinct es"
    and "sample_with_global_sender_cap sh es t m counts g = (sel, counts', g')"
  shows "distinct sel" and "set sel \<subseteq> set es"
proof -
  have m: "mset (fst (sh g es)) = mset es" using assms(1) unfolding fair_def by blast
  then have d: "distinct (fst (sh g es))" using assms(2) by (metis mset_eq_imp_distinct_iff)
  have s: "set (fst (sh g es)) = set es" using m by (metis set_mset_mset)
  show "distinct sel" using subseq_distinct'[OF sample_shape(1)[OF assms(3)] d] .
  show "set sel \<subseteq> set es" using subseq_set'[OF sample_shape(1)[OF assms(3)]] s by simp
qed

lemma bucket_loop_distinct:
  assumes "fair sh" "distinct emails"
  shows "bucket_loop sh emails ts sel sf counts g = (sel', sf', counts', g')
   \<Longrightarrow> distinct (map fst ts) \<Longrightarrow> distinct sel \<Longrightarrow> set sel \<subseteq> set emails
   \<Longrightarrow> (\<forall>e \<in> set sel. get_message_bucket e \<notin> fst ` set ts)
   \<Longrightarrow> distinct sel' \<and> set sel' \<subseteq> set emails"
proof (induction ts arbitrary: sel sf counts g)
  case Nil
  then show ?case by simp
next
  case (Cons bt ts)
  obtain bucket target where bt: "bt = (bucket, target)" by (cases bt)
  obtain sampled c1 g1 where s: "sample_with_global_sender_cap sh
      (filter (\<lambda>e. get_message_bucket e = bucket) emails) target MAX_PER_SENDER counts g = (sampled, c1, g1)"
    by (cases "sample_with_global_sender_cap sh
      (filter (\<lambda>e. get_message_bucket e = bucket) emails) target MAX_PER_SENDER counts g") auto
  have df: "distinct (filter (\<lambda>e. get_message_bucket e = bucket) emails)"
    using assms(2) by simp
  have sd: "distinct sampled" and ss: "set sampled \<subseteq> set (filter (\<lambda>e. get_message_bucket e = bucket) emails)"
    using sample_distinct[OF assms(1) df s] by auto
  have l: "bucket_loop sh emails ts (sel @ sampled)
      (if target - int (length sampled) > 0 then sf + (target - int (length sampled)) else sf) c1 g1
      = (sel', sf', counts', g')"
    using Cons.prems(1) s bt by (simp add: Let_def)
  have k: "distinct (map fst ts)" and nb: "bucket \<notin> fst ` set ts"
    using Cons.prems(2) bt by auto
  have disj: "set sel \<inter> set sampled = {}"
    using Cons.prems(5) ss bt by auto
  have d2: "distinct (sel @ sampled)" using Cons.prems(3) sd disj by simp
  have s2: "set (sel @ sampled) \<subseteq> set emails" using Cons.prems(4) ss by auto
  have b2: "\<forall>e \<in> set (sel @ sampled). get_message_bucket e \<notin> fst ` set ts"
    using Cons.prems(5) ss nb bt by auto
  from Cons.IH[OF l k d2 s2 b2] show ?case .
qed

lemma select_distinct:
  assumes "fair sh" "distinct (map thread_id emails)" "distinct (map fst ts)"
    and "select_emails_with_global_cap sh emails ctg ts counts tt g = (sel, counts', g')"
  shows "distinct sel" and "set sel \<subseteq> set emails"
proof -
  have de: "distinct emails" using assms(2) by (simp add: distinct_map)
  obtain s1 sf c1 g1 where b: "bucket_loop sh emails ts [] 0 counts g = (s1, sf, c1, g1)"
    by (cases "bucket_loop sh emails ts [] 0 counts g") auto
  have p: "distinct s1 \<and> set s1 \<subseteq> set emails"
    using bucket_loop_distinct[OF assms(1) de b assms(3)] by simp
  have "distinct sel \<and> set sel \<subseteq> set emails"
  proof (cases "sf > 0")
    case False
    with assms(4) b have "sel = s1" by (simp add: select_emails_with_global_cap_def)
    with p show ?thesis by simp
  next
    case True
    let ?rem = "filter (\<lambda>e. get_message_bucket e = ''1-msg'' \<and> thread_id e \<notin> set (map thread_id s1)) emails"
    obtain ad c2 g2 where a: "sample_with_global_sender_cap sh ?rem sf MAX_PER_SENDER c1 g1 = (ad, c2, g2)"
      using prod_cases3 by blast
    have sel: "sel = s1 @ ad"
      using assms(4) b a True by (simp add: select_emails_with_global_cap_def Let_def)
    have dr: "distinct ?rem" using de by simp
    have ad: "distinct ad" "set ad \<subseteq> set ?rem" using sample_distinct[OF assms(1) dr a] by auto
    have "set s1 \<inter> set ad = {}" using ad(2) by auto
    with p ad sel show ?thesis by auto
  qed
  then show "distinct sel" and "set sel \<subseteq> set emails" by auto
qed

text \<open>
  C6. Over a pool whose records have distinct thread ids, the final selection (work, then
  personal) has no repeated thread id: the bucket passes draw from disjoint buckets and the
  backfill leaves out the ids already selected.
\<close>

theorem no_duplicate_ids:
  assumes "fair shuffle" and "distinct (map thread_id pool)"
  shows "distinct (map thread_id (main_selection shuffle seed pool))"
proof -
  let ?work = "filter (\<lambda>e. personal_or_work e = str ''work'') pool"
  let ?pers = "filter (\<lambda>e. personal_or_work e = str ''personal'') pool"
  obtain sw c1 g1 where w: "select_emails_with_global_cap shuffle ?work ''work'' WORK_TARGETS
      (\<lambda>sender. 0) 200 (seed 42) = (sw, c1, g1)"
    using prod_cases3 by blast
  obtain sp c2 g2 where p: "select_emails_with_global_cap shuffle ?pers ''personal''
      PERSONAL_TARGETS c1 150 g1 = (sp, c2, g2)"
    using prod_cases3 by blast
  have m: "main_selection shuffle seed pool = sw @ sp"
    by (simp add: main_selection_def Let_def w p)
  have dw: "distinct (map thread_id ?work)" and dp: "distinct (map thread_id ?pers)"
    using assms(2) by (simp_all add: distinct_map_filter)
  have kw: "distinct (map fst WORK_TARGETS)" and kp: "distinct (map fst PERSONAL_TARGETS)"
    by (simp_all add: WORK_TARGETS_def PERSONAL_TARGETS_def)
  have sw: "distinct sw" "set sw \<subseteq> set ?work"
    using select_distinct[OF assms(1) dw kw w] by auto
  have sp: "distinct sp" "set sp \<subseteq> set ?pers"
    using select_distinct[OF assms(1) dp kp p] by auto
  have ne: "str ''work'' \<noteq> str ''personal''" by (simp add: str_def)
  have "set sw \<inter> set sp = {}" using sw(2) sp(2) ne by fastforce
  then have d: "distinct (sw @ sp)" using sw(1) sp(1) by simp
  have sub: "set (sw @ sp) \<subseteq> set pool" using sw(2) sp(2) by auto
  have "inj_on thread_id (set pool)" using assms(2) by (simp add: distinct_map)
  then have "inj_on thread_id (set (sw @ sp))" using sub by (rule inj_on_subset)
  with d have "distinct (map thread_id (sw @ sp))"
    by (rule iffD2[OF distinct_map, OF conjI])
  with m show ?thesis by simp
qed


theorem no_duplicate_ids_witness:
  "fair rev_shuffle \<and> distinct (map thread_id pool3)
   \<and> distinct (map thread_id (main_selection rev_shuffle (\<lambda>s. 0) pool3))
   \<and> map thread_id (main_selection rev_shuffle (\<lambda>s. 0) pool3) = [str ''t2'', str ''t1'', str ''t3'']"
proof -
  have d: "distinct (map thread_id pool3)" by code_simp
  have e: "map thread_id (main_selection rev_shuffle (\<lambda>s. 0) pool3) = [str ''t2'', str ''t1'', str ''t3'']"
    by code_simp
  show ?thesis
    using fair_rev_shuffle d e no_duplicate_ids[OF fair_rev_shuffle d, of "\<lambda>s. 0"] by simp
qed


section \<open>The backfill from the 1-msg bucket\<close>

text \<open>
  C7. When the bucket passes leave a positive shortfall, the selection is the records picked
  so far followed by a sample, under the same shuffle and sender cap, of the "1-msg" records
  whose thread id is not yet selected, with the shortfall as its target.  When that pool
  gives fewer than the shortfall, the selection is that much smaller than the targets' sum;
  the function still returns.
\<close>

theorem backfill_from_1msg:
  assumes "bucket_loop shuffle emails targets [] 0 counts g = (picked, shortfall, counts1, g1)"
    and "shortfall > 0"
    and "fair shuffle"
    and "sample_with_global_sender_cap shuffle
           (filter (\<lambda>e. get_message_bucket e = ''1-msg''
                        \<and> thread_id e \<notin> set (map thread_id picked)) emails)
           shortfall MAX_PER_SENDER counts1 g1 = (additional, counts2, g2)"
  shows "select_emails_with_global_cap shuffle emails category targets counts total_target g
           = (picked @ additional, counts2, g2)
       \<and> (\<forall>e \<in> set additional. e \<in> set emails \<and> get_message_bucket e = ''1-msg''
              \<and> thread_id e \<notin> set (map thread_id picked))
       \<and> int (length additional) \<le> shortfall
       \<and> int (length (picked @ additional))
            = sum_list (map (\<lambda>bt. max 0 (snd bt)) targets) - (shortfall - int (length additional))"
proof -
  have 1: "select_emails_with_global_cap shuffle emails category targets counts total_target g
           = (picked @ additional, counts2, g2)"
    using assms(1,2,4) by (simp add: select_emails_with_global_cap_def Let_def)
  have "set additional \<subseteq> set (filter (\<lambda>e. get_message_bucket e = ''1-msg''
                        \<and> thread_id e \<notin> set (map thread_id picked)) emails)"
    using set_mset_mono[OF sample_sub[OF assms(3,4)]] by simp
  then have 2: "\<forall>e \<in> set additional. e \<in> set emails \<and> get_message_bucket e = ''1-msg''
              \<and> thread_id e \<notin> set (map thread_id picked)"
    by auto
  have 3: "int (length additional) \<le> shortfall"
    using sample_shape(2)[OF assms(4)] assms(2) by simp
  have "int (length picked) + shortfall = sum_list (map (\<lambda>bt. max 0 (snd bt)) targets)"
    using bucket_loop_size[OF assms(1)] by simp
  then have 4: "int (length (picked @ additional))
            = sum_list (map (\<lambda>bt. max 0 (snd bt)) targets) - (shortfall - int (length additional))"
    by simp
  show ?thesis by (intro conjI 1 2 3 4)
qed

theorem backfill_from_1msg_witness:
  "fair rev_shuffle
   \<and> fst (snd (bucket_loop rev_shuffle pool3 [(''1-msg'', 1), (''2-msg'', 5)] [] 0 (\<lambda>s. 0) 0)) = 5
   \<and> map thread_id (fst (bucket_loop rev_shuffle pool3 [(''1-msg'', 1), (''2-msg'', 5)] [] 0 (\<lambda>s. 0) 0))
       = [str ''t3'']
   \<and> map thread_id (fst (select_emails_with_global_cap rev_shuffle pool3 ''work''
        [(''1-msg'', 1), (''2-msg'', 5)] (\<lambda>s. 0) 6 0)) = [str ''t3'', str ''t2'', str ''t1'']
   \<and> int (length (fst (select_emails_with_global_cap rev_shuffle pool3 ''work''
        [(''1-msg'', 1), (''2-msg'', 5)] (\<lambda>s. 0) 6 0))) < 1 + 5"
proof -
  let ?ts = "[(''1-msg'', 1), (''2-msg'', 5)] :: (string \<times> int) list"
  let ?b = "bucket_loop rev_shuffle pool3 ?ts [] 0 (\<lambda>s. 0) 0"
  have sf: "fst (snd ?b) = 5" by code_simp
  have p: "map thread_id (fst ?b) = [str ''t3'']" by code_simp
  have e: "map thread_id (fst (select_emails_with_global_cap rev_shuffle pool3 ''work'' ?ts (\<lambda>s. 0) 6 0))
      = [str ''t3'', str ''t2'', str ''t1'']" by code_simp
  obtain picked sfv c1 g1 where b: "?b = (picked, sfv, c1, g1)"
    using prod_cases4 by blast
  have sfv: "sfv = 5" using sf b by simp
  have sf0: "sfv > 0" using sfv by simp
  obtain additional c2 g2 where a: "sample_with_global_sender_cap rev_shuffle
           (filter (\<lambda>e. get_message_bucket e = ''1-msg''
                        \<and> thread_id e \<notin> set (map thread_id picked)) pool3)
           sfv MAX_PER_SENDER c1 g1 = (additional, c2, g2)"
    using prod_cases3 by blast
  note t = backfill_from_1msg[OF b sf0 fair_rev_shuffle a, where category = "''work''" and total_target = 6]
  from t have s1: "select_emails_with_global_cap rev_shuffle pool3 ''work'' ?ts (\<lambda>s. 0) 6 0
      = (picked @ additional, c2, g2)"
    by (rule conjunct1)
  from t have t4: "int (length (picked @ additional))
      = sum_list (map (\<lambda>bt. max 0 (snd bt)) ?ts) - (sfv - int (length additional))"
    by (rule conjunct2[THEN conjunct2, THEN conjunct2])
  have "length (picked @ additional) = 3"
    using e s1 by (metis fst_conv length_map length_Cons list.size(3) numeral_3_eq_3)
  then have "int (length additional) = 2" using t4 sfv by simp
  then have "int (length (fst (select_emails_with_global_cap rev_shuffle pool3 ''work'' ?ts (\<lambda>s. 0) 6 0)))
      < 1 + 5"
    using t4 sfv s1 by simp
  with fair_rev_shuffle sf p e show ?thesis by (intro conjI)
qed


section \<open>Reproducible runs\<close>




section \<open>The sender key\<close>

lemma search_address_empty: "re_search p_address [] = None"
  by code_simp

lemma lower_from_Nil: "lower_from before s = [] \<longleftrightarrow> s = []"
  by (cases s) (simp_all add: lower_full_def)

lemma lower_Nil: "lower s = [] \<longleftrightarrow> s = []"
  by (simp add: lower_def lower_from_Nil)

text \<open>
  C10. When the pattern of an address finds nothing in the lowercased \<^verbatim>\<open>from\<close> field, the
  sender key is the first 50 characters of the lowercased field; when the field is empty it
  is \<^verbatim>\<open>unknown\<close>.  So the records with an empty field share one key, and at most
  \<open>MAX_PER_SENDER\<close> of them are selected.
\<close>

theorem extract_sender_fallback:
  "(re_search p_address (lower (e_from e)) = None \<and> e_from e \<noteq> []
      \<longrightarrow> extract_sender e = take 50 (lower (e_from e)))
   \<and> (e_from e = [] \<longrightarrow> extract_sender e = str ''unknown'')
   \<and> (e_from e = [] \<and> e_from e' = [] \<longrightarrow> extract_sender e = extract_sender e')
   \<and> int (length (filter (\<lambda>e. e_from e = []) (main_selection shuffle seed pool))) \<le> MAX_PER_SENDER"
proof -
  have a: "re_search p_address (lower (e_from e)) = None \<and> e_from e \<noteq> []
      \<longrightarrow> extract_sender e = take 50 (lower (e_from e))"
    by (simp add: extract_sender_def lower_Nil)
  have b: "e_from x = [] \<longrightarrow> extract_sender x = str ''unknown''" for x
    by (simp add: extract_sender_def lower_def search_address_empty)
  have c: "e_from e = [] \<and> e_from e' = [] \<longrightarrow> extract_sender e = extract_sender e'"
    using b by simp
  have "length (filter (\<lambda>e. e_from e = []) (main_selection shuffle seed pool))
      = length (filter (\<lambda>e. e_from e = []) (filter (\<lambda>e. extract_sender e = str ''unknown'') (main_selection shuffle seed pool)))"
    using b by (simp add: conj_commute cong: conj_cong)
  also have "\<dots> \<le> length (filter (\<lambda>e. extract_sender e = str ''unknown'') (main_selection shuffle seed pool))"
    by (rule length_filter_le)
  finally have "int (length (filter (\<lambda>e. e_from e = []) (main_selection shuffle seed pool)))
      \<le> sent (str ''unknown'') (main_selection shuffle seed pool)"
    by (simp add: sent_def)
  then have d: "int (length (filter (\<lambda>e. e_from e = []) (main_selection shuffle seed pool))) \<le> MAX_PER_SENDER"
    using main_selection_sent[of "str ''unknown''" shuffle seed pool] by linarith
  show ?thesis by (intro conjI a b c d)
qed


theorem extract_sender_fallback_witness:
  "re_search p_address (lower (str ''The Office of the Dean of Students at Harvard Medical School'')) = None
   \<and> extract_sender (mk_email ''t1'' ''The Office of the Dean of Students at Harvard Medical School'' [] ''work'')
       = str ''the office of the dean of students at harvard medi''
   \<and> extract_sender (mk_email ''t2'' [] [] ''work'') = str ''unknown''
   \<and> extract_sender (mk_email ''t2'' [] [] ''work'') = extract_sender (mk_email ''t3'' [] [] ''personal'')"
proof -
  let ?e = "mk_email ''t1'' ''The Office of the Dean of Students at Harvard Medical School'' [] ''work''"
  have f: "e_from ?e = str ''The Office of the Dean of Students at Harvard Medical School''"
    by (simp add: mk_email_def)
  have n: "re_search p_address (lower (str ''The Office of the Dean of Students at Harvard Medical School'')) = None"
    by code_simp
  have t: "take 50 (lower (str ''The Office of the Dean of Students at Harvard Medical School''))
      = str ''the office of the dean of students at harvard medi''"
    by code_simp
  have ne: "str ''The Office of the Dean of Students at Harvard Medical School'' \<noteq> []"
    by (simp add: str_def)
  have e2: "e_from (mk_email ''t2'' [] [] ''work'') = []" "e_from (mk_email ''t3'' [] [] ''personal'') = []"
    by (simp_all add: mk_email_def str_def)
  note t1 = extract_sender_fallback[where e = ?e and e' = "mk_email ''t2'' [] [] ''work''"
      and shuffle = rev_shuffle and seed = "\<lambda>s. 0" and pool = pool3]
  note t2 = extract_sender_fallback[where e = "mk_email ''t2'' [] [] ''work''"
      and e' = "mk_email ''t3'' [] [] ''personal''"
      and shuffle = rev_shuffle and seed = "\<lambda>s. 0" and pool = pool3]
  have a: "extract_sender ?e = str ''the office of the dean of students at harvard medi''"
    using t1[THEN conjunct1] f n t ne by simp
  have b: "extract_sender (mk_email ''t2'' [] [] ''work'') = str ''unknown''"
    using t2[THEN conjunct2, THEN conjunct1] e2(1) by simp
  have c: "extract_sender (mk_email ''t2'' [] [] ''work'') = extract_sender (mk_email ''t3'' [] [] ''personal'')"
    using t2[THEN conjunct2, THEN conjunct2, THEN conjunct1] e2 by simp
  show ?thesis by (intro conjI n a b c)
qed

section \<open>The headers that the merger parses\<close>















section \<open>Segments of a thread\<close>

















section \<open>The cleaning pipeline\<close>

subsection \<open>A stage whose shape is absent\<close>

lemma tracking_quiet: "rules_quiet tracking_rules t \<Longrightarrow> clean_tracking_urls t = t"
  by (simp add: clean_tracking_urls_def rules_quiet_id)

lemma html_quiet: "rules_quiet html_rules t \<Longrightarrow> clean_html_tags t = t"
  by (simp add: clean_html_tags_def rules_quiet_id)

lemma attachment_quiet: "rules_quiet attachment_rules t \<Longrightarrow> remove_attachment_metadata t = t"
  by (simp add: remove_attachment_metadata_def rules_quiet_id)

lemma markdown_quiet: "rules_quiet markdown_rules t \<Longrightarrow> clean_markdown_artifacts t = t"
  by (simp add: clean_markdown_artifacts_def rules_quiet_id)

lemma boilerplate_quiet: "rules_quiet boilerplate_rules t \<Longrightarrow> clean_boilerplate t = t"
  by (simp add: clean_boilerplate_def rules_quiet_id)

lemma whitespace_quiet: "rules_quiet whitespace_rules t \<Longrightarrow> clean_whitespace t = t"
  by (simp add: clean_whitespace_def rules_quiet_id)

lemma quiet_clean: "quiet t \<Longrightarrow> clean_email_content t = t"
  by (simp add: quiet_def clean_email_content_def Let_def tracking_quiet html_quiet
      attachment_quiet markdown_quiet remove_duplicate_quiet boilerplate_quiet
      clean_signatures_quiet simplify_quoted_quiet whitespace_quiet)

lemmas quiet_defs = quiet_def rules_quiet_def shallow_def trimmed_def tracking_rules_def html_rules_def
  attachment_rules_def markdown_rules_def boilerplate_rules_def whitespace_rules_def
  rules_before_strip_def rules_after_strip_def sig_pattern_def p_separator_def

lemmas stage_defs = clean_tracking_urls_def clean_html_tags_def remove_attachment_metadata_def
  clean_markdown_artifacts_def clean_boilerplate_def clean_whitespace_def tracking_rules_def
  html_rules_def attachment_rules_def markdown_rules_def boilerplate_rules_def whitespace_rules_def
  rules_before_strip_def rules_after_strip_def sig_pattern_def p_separator_def p_message_def

subsection \<open>Concrete runs\<close>

lemma garbage_quiet: "quiet garbage"
  by (simp add: garbage_def quiet_defs pat_defs run_defs)

lemma empty_quiet: "quiet []"
  by (simp add: quiet_defs pat_defs run_defs)

lemma blanks_stages:
  "clean_tracking_urls blanks = blanks" "clean_html_tags blanks = blanks"
  "remove_attachment_metadata blanks = blanks" "clean_markdown_artifacts blanks = blanks"
  "remove_duplicate_content blanks = blanks" "clean_boilerplate blanks = blanks"
  "clean_signatures blanks = blanks" "simplify_quoted_replies blanks = blanks"
  "clean_whitespace blanks = []"
  by (simp_all add: blanks_def stage_defs pat_defs run_defs)

lemma blanks_clean: "clean_email_content blanks = []"
  by (simp add: clean_email_content_def blanks_stages)

lemma garbage_clean: "clean_email_content garbage = garbage"
  using garbage_quiet by (rule quiet_clean)

lemma empty_clean: "clean_email_content [] = []"
  using empty_quiet by (rule quiet_clean)

text \<open>The text \<^verbatim>\<open>&amp;reg;\<close>: the first pass leaves \<^verbatim>\<open>&reg;\<close>, the second pass U+00AE.\<close>

lemma x0_stages:
  "clean_tracking_urls x0 = x0" "clean_html_tags x0 = x0"
  "remove_attachment_metadata x0 = x0" "clean_markdown_artifacts x0 = x0"
  "remove_duplicate_content x0 = x0" "clean_boilerplate x0 = x1"
  "clean_signatures x1 = x1" "simplify_quoted_replies x1 = x1" "clean_whitespace x1 = x1"
  by (simp_all add: x0_def x1_def stage_defs pat_defs run_defs)

lemma x0_clean: "clean_email_content x0 = x1"
  by (simp add: clean_email_content_def x0_stages)

lemma x1_stages:
  "clean_tracking_urls x1 = x1" "clean_html_tags x1 = x1"
  "remove_attachment_metadata x1 = x1" "clean_markdown_artifacts x1 = x1"
  "remove_duplicate_content x1 = x1" "clean_boilerplate x1 = [174]"
  "clean_signatures [174] = [174]" "simplify_quoted_replies [174] = [174]"
  "clean_whitespace [174] = [174]"
  by (simp_all add: x1_def stage_defs pat_defs run_defs)

lemma x1_clean: "clean_email_content x1 = [174]"
  by (simp add: clean_email_content_def x1_stages)

text \<open>A text that the first pass changes and the second pass leaves.\<close>

lemma x2_stages:
  "clean_tracking_urls x2 = x2" "clean_html_tags x2 = str '' Hi &lt;  ''"
  "remove_attachment_metadata (str '' Hi &lt;  '') = str '' Hi &lt;  ''"
  "clean_markdown_artifacts (str '' Hi &lt;  '') = str '' Hi &lt;  ''"
  "remove_duplicate_content (str '' Hi &lt;  '') = str '' Hi &lt;  ''"
  "clean_boilerplate (str '' Hi &lt;  '') = str '' Hi <  ''"
  "clean_signatures (str '' Hi <  '') = str '' Hi <  ''"
  "simplify_quoted_replies (str '' Hi <  '') = str '' Hi <  ''"
  "clean_whitespace (str '' Hi <  '') = x3"
  by (simp_all add: x2_def x3_def stage_defs pat_defs run_defs)

lemma x2_clean: "clean_email_content x2 = x3"
  by (simp add: clean_email_content_def x2_stages)

lemma x3_quiet: "quiet x3"
  by (simp add: x3_def quiet_defs pat_defs run_defs)

lemma x0_marker_free: "marker_free x0"
  by (simp add: marker_free_def x0_def str_def)

text \<open>
  C1 as stated fails: \<^verbatim>\<open>&amp;reg;\<close> holds none of the marker tokens; cleaning it once gives
  \<^verbatim>\<open>&reg;\<close> (the table of entities decodes \<^verbatim>\<open>&amp;\<close> after \<^verbatim>\<open>&reg;\<close>), and cleaning that gives
  the sign U+00AE.
\<close>

theorem not_idempotent:
  "marker_free x0
   \<and> clean_email_content x0 = str ''&reg;''
   \<and> clean_email_content (clean_email_content x0) = [174]
   \<and> clean_email_content (clean_email_content x0) \<noteq> clean_email_content x0"
  by (simp add: x0_marker_free x0_clean x1_clean) (simp add: x1_def str_def)

text \<open>
  C1, amended.  Cleaning twice equals cleaning once for every input whose cleaned text
  holds nothing that a stage rewrites (no pattern of a stage matches in it, no separator
  line, at most one signature, no line quoted twice, no white space at its ends); and so
  for every input that itself holds nothing that a stage rewrites.
\<close>

theorem idempotent_when_quiet:
  "(quiet (clean_email_content x)
      \<longrightarrow> clean_email_content (clean_email_content x) = clean_email_content x)
   \<and> (quiet x \<longrightarrow> clean_email_content (clean_email_content x) = clean_email_content x)"
  by (simp add: quiet_clean)

theorem idempotent_when_quiet_witness:
  "clean_email_content x2 = str ''Hi <''
   \<and> quiet (clean_email_content x2)
   \<and> clean_email_content (clean_email_content x2) = clean_email_content x2
   \<and> quiet garbage
   \<and> clean_email_content (clean_email_content garbage) = clean_email_content garbage"
proof -
  have a: "clean_email_content x2 = str ''Hi <''"
    by (simp add: x2_clean x3_def)
  have q: "quiet (clean_email_content x2)"
    by (simp add: x2_clean x3_quiet)
  have i: "clean_email_content (clean_email_content x2) = clean_email_content x2"
    using idempotent_when_quiet[of x2, THEN conjunct1] q by blast
  have j: "clean_email_content (clean_email_content garbage) = clean_email_content garbage"
    using idempotent_when_quiet[of garbage, THEN conjunct2] garbage_quiet by blast
  show ?thesis by (intro conjI a q i garbage_quiet j)
qed

text \<open>
  C5. The cleaning is a total function of the text: every loop of the matcher, of the
  scan for matches, of \<^verbatim>\<open>str.replace\<close> and of the count of quote marks ends (their
  termination is proved where they are defined), and no step of a stage can raise on a text.
  Every stage returns the text as it is when its shape is absent: the stages made of
  substitutions when none of their patterns matches (and no text to replace occurs, at most
  one notice to keep, no white space to strip), the removal of duplicate content when there
  is no separator line, the signature stage with at most one signature, the stage for quoted
  replies when no line is quoted twice.  So does the whole pipeline.  The empty text and a
  text of white space only are cleaned to the empty text; a text of control characters,
  unassigned code points and a lone surrogate is returned as it is.
\<close>

theorem clean_degrades:
  "(rules_quiet tracking_rules t \<longrightarrow> clean_tracking_urls t = t)
   \<and> (rules_quiet html_rules t \<longrightarrow> clean_html_tags t = t)
   \<and> (rules_quiet attachment_rules t \<longrightarrow> remove_attachment_metadata t = t)
   \<and> (rules_quiet markdown_rules t \<longrightarrow> clean_markdown_artifacts t = t)
   \<and> (re_search p_separator t = None \<longrightarrow> remove_duplicate_content t = t)
   \<and> (rules_quiet boilerplate_rules t \<longrightarrow> clean_boilerplate t = t)
   \<and> (length (re_finditer sig_pattern t) \<le> 1 \<longrightarrow> clean_signatures t = t)
   \<and> (shallow t \<longrightarrow> simplify_quoted_replies t = t)
   \<and> (rules_quiet whitespace_rules t \<longrightarrow> clean_whitespace t = t)
   \<and> (quiet t \<longrightarrow> clean_email_content t = t)
   \<and> clean_email_content [] = []
   \<and> clean_email_content blanks = []
   \<and> clean_email_content garbage = garbage"
  by (intro conjI impI tracking_quiet html_quiet attachment_quiet markdown_quiet
      remove_duplicate_quiet boilerplate_quiet clean_signatures_quiet simplify_quoted_quiet
      whitespace_quiet quiet_clean empty_clean blanks_clean garbage_clean)

theorem clean_degrades_witness:
  "rules_quiet tracking_rules x3 \<and> clean_tracking_urls x3 = x3
   \<and> rules_quiet html_rules x3 \<and> clean_html_tags x3 = x3
   \<and> rules_quiet attachment_rules x3 \<and> remove_attachment_metadata x3 = x3
   \<and> rules_quiet markdown_rules x3 \<and> clean_markdown_artifacts x3 = x3
   \<and> re_search p_separator x3 = None \<and> remove_duplicate_content x3 = x3
   \<and> rules_quiet boilerplate_rules x3 \<and> clean_boilerplate x3 = x3
   \<and> length (re_finditer sig_pattern x3) \<le> 1 \<and> clean_signatures x3 = x3
   \<and> shallow x3 \<and> simplify_quoted_replies x3 = x3
   \<and> rules_quiet whitespace_rules x3 \<and> clean_whitespace x3 = x3
   \<and> quiet x3 \<and> clean_email_content x3 = x3"
proof -
  note t = clean_degrades[of x3]
  have q: "rules_quiet tracking_rules x3" "rules_quiet html_rules x3"
      "rules_quiet attachment_rules x3" "rules_quiet markdown_rules x3"
      "re_search p_separator x3 = None" "rules_quiet boilerplate_rules x3"
      "length (re_finditer sig_pattern x3) \<le> 1" "shallow x3" "rules_quiet whitespace_rules x3"
    using x3_quiet by (simp_all add: quiet_def)
  have r: "clean_tracking_urls x3 = x3" "clean_html_tags x3 = x3"
      "remove_attachment_metadata x3 = x3" "clean_markdown_artifacts x3 = x3"
      "remove_duplicate_content x3 = x3" "clean_boilerplate x3 = x3"
      "clean_signatures x3 = x3" "simplify_quoted_replies x3 = x3" "clean_whitespace x3 = x3"
      "clean_email_content x3 = x3"
    using t q x3_quiet by blast+
  show ?thesis by (intro conjI q r x3_quiet)
qed

end
